theory Spec2Isabelle
  imports Main "HOL-Library.Word" "HOL-Library.Sublist"
begin

section \<open>Strings\<close>

text \<open>
  A JavaScript string is a sequence of UTF-16 code units; \<open>length\<close>, \<open>substring\<close>,
  \<open>charAt\<close> and the regular expressions of the sources (none has the \<open>u\<close> flag) all work
  on code units. The model keeps that: a string is a list of 16-bit words. \<open>str\<close> embeds an
  ASCII literal of the source.
\<close>

type_synonym cu = "16 word"
type_synonym jsstring = "cu list"

definition str :: "string \<Rightarrow> jsstring" where
  "str s = map of_char s"

definition chr :: "char \<Rightarrow> cu" where
  "chr c = of_char c"

section \<open>The regular expressions of the sources\<close>

text \<open>
  The sources use three regular expressions, built from single characters, character
  classes, a capturing group around a greedy \<open>+\<close> of a class, and the anchor \<open>^\<close> under
  the \<open>m\<close> flag. \<open>One p\<close> consumes one code unit satisfying \<open>p\<close>; \<open>Plus p\<close> is the
  capturing group \<open>([p]+)\<close>; \<open>Bol\<close> is \<open>^\<close> with the \<open>m\<close> flag.
\<close>

datatype rx = One "cu \<Rightarrow> bool" | Plus "cu \<Rightarrow> bool" | Bol

definition lit :: "string \<Rightarrow> rx list" where
  "lit s = map (\<lambda>c. One (\<lambda>x. x = chr c)) s"

text \<open>The line terminators of ECMAScript: LF, CR, U+2028 and U+2029.\<close>

definition line_terminator :: "cu \<Rightarrow> bool" where
  "line_terminator c = (c = 0x0A \<or> c = 0x0D \<or> c = 0x2028 \<or> c = 0x2029)"

text \<open>\<open>^\<close> under \<open>m\<close> holds at the start of the input and right after a line terminator;
  \<open>prev\<close> is the code unit before the current position, if any.\<close>

definition at_bol :: "cu option \<Rightarrow> bool" where
  "at_bol prev = (case prev of None \<Rightarrow> True | Some c \<Rightarrow> line_terminator c)"

fun first_some :: "('a \<Rightarrow> 'b option) \<Rightarrow> 'a list \<Rightarrow> 'b option" where
  "first_some f [] = None"
| "first_some f (x # xs) = (case f x of Some y \<Rightarrow> Some y | None \<Rightarrow> first_some f xs)"

text \<open>
  The backtracking matcher at one position: the result is the list of captures and the
  input left after the match. A greedy group tries its longest extent first and gives
  characters back one at a time, down to one character.
\<close>

primrec match_here :: "rx list \<Rightarrow> cu option \<Rightarrow> jsstring \<Rightarrow> (jsstring list \<times> jsstring) option" where
  "match_here [] = (\<lambda>prev s. Some ([], s))"
| "match_here (r # rs) = (\<lambda>prev s.
     case r of
       One p \<Rightarrow> (case s of [] \<Rightarrow> None
                  | c # cs \<Rightarrow> if p c then match_here rs (Some c) cs else None)
     | Bol \<Rightarrow> if at_bol prev then match_here rs prev s else None
     | Plus p \<Rightarrow>
         first_some
           (\<lambda>n. case match_here rs (Some (s ! (n - 1))) (drop n s) of
                  None \<Rightarrow> None
                | Some (caps, rest) \<Rightarrow> Some (take n s # caps, rest))
           (rev [1 ..< Suc (length (takeWhile p s))]))"

text \<open>The search of an unanchored expression: the leftmost position where it matches.
  The result also gives the text skipped before the match.\<close>

fun exec_from :: "rx list \<Rightarrow> cu option \<Rightarrow> jsstring \<Rightarrow> (jsstring \<times> jsstring list \<times> jsstring) option" where
  "exec_from rs prev [] =
     (case match_here rs prev [] of None \<Rightarrow> None | Some (caps, rest) \<Rightarrow> Some ([], caps, rest))"
| "exec_from rs prev (c # cs) =
     (case match_here rs prev (c # cs) of
        Some (caps, rest) \<Rightarrow> Some ([], caps, rest)
      | None \<Rightarrow> (case exec_from rs (Some c) cs of
                   None \<Rightarrow> None
                 | Some (skipped, caps, rest) \<Rightarrow> Some (c # skipped, caps, rest)))"

text \<open>\<open>String.prototype.match\<close> with an expression without the \<open>g\<close> flag: the captures of
  the leftmost match, or null.\<close>

definition match_first :: "rx list \<Rightarrow> jsstring \<Rightarrow> jsstring list option" where
  "match_first rs s = map_option (\<lambda>(skipped, caps, rest). caps) (exec_from rs None s)"

section \<open>The URL resolver (parseMRUrl)\<close>

datatype platform = GitHub | GitLab

record mr_ref =
  platform :: platform
  owner :: jsstring
  repo :: jsstring
  mrNumber :: jsstring

definition not_slash :: "cu \<Rightarrow> bool" where
  "not_slash c = (c \<noteq> chr CHR ''/'')"

definition digit :: "cu \<Rightarrow> bool" where
  "digit c = (chr CHR ''0'' \<le> c \<and> c \<le> chr CHR ''9'')"

text \<open>\<^verbatim>\<open>/github\.com\/([^\/]+)\/([^\/]+)\/pull\/(\d+)/\<close>\<close>

definition github_rx :: "rx list" where
  "github_rx = lit ''github.com/'' @ [Plus not_slash] @ lit ''/'' @ [Plus not_slash]
                 @ lit ''/pull/'' @ [Plus digit]"

text \<open>\<^verbatim>\<open>/gitlab\.com\/([^\/]+)\/([^\/]+)\/-\/merge_requests\/(\d+)/\<close>\<close>

definition gitlab_rx :: "rx list" where
  "gitlab_rx = lit ''gitlab.com/'' @ [Plus not_slash] @ lit ''/'' @ [Plus not_slash]
                 @ lit ''/-/merge_requests/'' @ [Plus digit]"

definition parseMRUrl :: "jsstring \<Rightarrow> mr_ref option" where
  "parseMRUrl url =
     (case match_first github_rx url of
        Some m \<Rightarrow> Some \<lparr>platform = GitHub, owner = m ! 0, repo = m ! 1, mrNumber = m ! 2\<rparr>
      | None \<Rightarrow>
          (case match_first gitlab_rx url of
             Some m \<Rightarrow> Some \<lparr>platform = GitLab, owner = m ! 0, repo = m ! 1, mrNumber = m ! 2\<rparr>
           | None \<Rightarrow> None))"


section \<open>Global matching and the line counts of the GitLab adapter\<close>

text \<open>
  \<open>String.prototype.match\<close> with a \<open>g\<close> expression returns the texts of all matches: the
  search resumes where the last match ended (one position further after an empty match).
  A null result is the empty list here; the source reads its length through \<open>|| []\<close>.
\<close>

function match_all :: "rx list \<Rightarrow> cu option \<Rightarrow> jsstring \<Rightarrow> jsstring list" where
  "match_all rs prev s =
     (case exec_from rs prev s of
        None \<Rightarrow> []
      | Some (skipped, caps, rest) \<Rightarrow>
          (let t = drop (length skipped) s; m = take (length t - length rest) t in
           if m = [] then (case rest of [] \<Rightarrow> [m] | c # cs \<Rightarrow> m # match_all rs (Some c) cs)
           else m # match_all rs (Some (last m)) rest))"
  by pat_completeness auto
termination
proof (relation "measure (\<lambda>(rs, prev, s). length s)")
  have fs: "\<exists>x \<in> set xs. f x = Some y" if "first_some f xs = Some y"
    for f :: "nat \<Rightarrow> (jsstring list \<times> jsstring) option" and xs y
    using that by (induction xs) (auto split: option.splits)
  have mh: "length rest \<le> length s" if "match_here rs prev s = Some (caps, rest)"
    for rs prev s caps rest
    using that
  proof (induction rs arbitrary: prev s caps rest)
    case Nil
    then show ?case by simp
  next
    case (Cons r rs)
    show ?case
    proof (cases r)
      case (One p)
      with Cons.prems obtain c cs where "s = c # cs" "match_here rs (Some c) cs = Some (caps, rest)"
        by (auto split: list.splits if_splits)
      with Cons.IH show ?thesis by fastforce
    next
      case (Plus p)
      with Cons.prems fs obtain n where
        "(case match_here rs (Some (s ! (n - 1))) (drop n s) of
                  None \<Rightarrow> None
                | Some (caps, rest) \<Rightarrow> Some (take n s # caps, rest)) = Some (caps, rest)"
        by fastforce
      then obtain caps' where "match_here rs (Some (s ! (n - 1))) (drop n s) = Some (caps', rest)"
        by (auto split: option.splits)
      from Cons.IH[OF this] show ?thesis by simp
    next
      case Bol
      with Cons.prems have "match_here rs prev s = Some (caps, rest)"
        by (auto split: if_splits)
      with Cons.IH show ?thesis by blast
    qed
  qed
  have ex: "length skipped + length rest \<le> length s"
    if "exec_from rs prev s = Some (skipped, caps, rest)" for rs prev s skipped caps rest
    using that
  proof (induction s arbitrary: prev skipped)
    case Nil
    then show ?case using mh by (fastforce split: option.splits)
  next
    case (Cons c cs)
    show ?case
    proof (cases "match_here rs prev (c # cs)")
      case None
      with Cons.prems obtain sk where "skipped = c # sk" "exec_from rs (Some c) cs = Some (sk, caps, rest)"
        by (auto split: option.splits)
      with Cons.IH show ?thesis by fastforce
    next
      case (Some r)
      with Cons.prems have "skipped = []" "match_here rs prev (c # cs) = Some (caps, rest)"
        by auto
      with mh show ?thesis by fastforce
    qed
  qed
  show "wf (measure (\<lambda>(rs, prev, s). length s))" by simp
  show "((rs, Some c, cs), rs, prev, s) \<in> measure (\<lambda>(rs, prev, s). length s)"
    if "exec_from rs prev s = Some x2" "(skipped, y) = x2" "(caps, rest) = y"
      "rest = c # cs"
    for rs prev s x2 skipped y caps rest t m c cs
  proof -
    from that have "exec_from rs prev s = Some (skipped, caps, c # cs)" by simp
    from ex[OF this] show ?thesis by simp
  qed
  show "((rs, Some (last m), rest), rs, prev, s) \<in> measure (\<lambda>(rs, prev, s). length s)"
    if "exec_from rs prev s = Some x2" "(skipped, y) = x2" "(caps, rest) = y"
      "t = drop (length skipped) s" "m = take (length t - length rest) t" "m \<noteq> []"
    for rs prev s x2 skipped y caps rest t m
  proof -
    from that have "exec_from rs prev s = Some (skipped, caps, rest)" by simp
    from ex[OF this] have "length skipped + length rest \<le> length s" .
    moreover from that have "length rest < length t" by (auto simp: Let_def)
    ultimately show ?thesis using that by simp
  qed
qed

declare match_all.simps [simp del]

text \<open>\<^verbatim>\<open>/^\+[^+]/gm\<close> and \<^verbatim>\<open>/^-[^-]/gm\<close>: a sign at the start of a line, then one code unit
  that is not the sign.\<close>

definition sign_rx :: "cu \<Rightarrow> rx list" where
  "sign_rx x = [Bol, One (\<lambda>c. c = x), One (\<lambda>c. c \<noteq> x)]"

definition additions_rx :: "rx list" where
  "additions_rx = sign_rx (chr CHR ''+'')"

definition deletions_rx :: "rx list" where
  "deletions_rx = sign_rx (chr CHR ''-'')"


section \<open>The platform adapters and the page state (CodeDiff)\<close>

text \<open>
  The page keeps its data in React state variables; the model gathers those the fetch
  path reads or writes in one record. Three of them carry the prefix \<open>ui_\<close> because the
  notification payload further down has fields of the same names (\<open>mrUrl\<close>, \<open>mrTitle\<close>,
  \<open>filesChanged\<close>); for the same reason the status of a file change is \<open>fstatus\<close> and the
  fields of a toast carry the prefix \<open>toast_\<close>.
\<close>

datatype change_status = Added | Modified | Removed | Renamed

record FileChange =
  filename :: jsstring
  fstatus :: change_status
  additions :: nat
  deletions :: nat
  patch :: "jsstring option"

datatype view_mode = SideBySide | Unified

record ui_state =
  ui_mrUrl :: jsstring
  isLoading :: bool
  ui_filesChanged :: "FileChange list"
  selectedFile :: "FileChange option"
  diffHtml :: jsstring
  viewMode :: view_mode
  ui_mrTitle :: jsstring
  mrAuthor :: jsstring

record toast =
  toast_title :: jsstring
  toast_description :: jsstring
  destructive :: bool

text \<open>
  The JSON of the four endpoints, typed as the fields the code reads. An optional field
  (\<open>user?.login\<close>, \<open>author?.username\<close>, \<open>changes\<close>, \<open>diff\<close>, \<open>patch\<close>, \<open>new_path\<close>) is an
  option; the three flags of a GitLab change are read for their truthiness only.
\<close>

record gh_pr =
  pr_title :: jsstring
  pr_user_login :: "jsstring option"

record gh_file =
  gh_filename :: jsstring
  gh_status :: change_status
  gh_additions :: nat
  gh_deletions :: nat
  gh_patch :: "jsstring option"

record gl_mr =
  mr_title :: jsstring
  mr_author_username :: "jsstring option"

record gl_change =
  new_file :: bool
  deleted_file :: bool
  renamed_file :: bool
  diff :: "jsstring option"
  new_path :: "jsstring option"
  old_path :: jsstring

record gl_changes =
  changes :: "gl_change list option"

text \<open>
  A \<open>fetch\<close> either rejects (a network error, with its message) or resolves to a response
  with its \<open>ok\<close> flag and a body whose \<open>json()\<close> gives the parsed value or rejects.
\<close>

datatype 'a response = Rejected jsstring | Response bool "jsstring + 'a"

text \<open>
  What the page takes from outside: the stored tokens (empty when none is stored), the
  network, \<open>encodeURIComponent\<close> (which throws on a lone surrogate) and the diff2html
  library (\<open>parse\<close> then \<open>html\<close>, which may throw), given the diff text and the output format.
\<close>

record env =
  githubToken :: jsstring
  gitlabToken :: jsstring
  fetch_pr :: "jsstring \<Rightarrow> (jsstring \<times> jsstring) list \<Rightarrow> gh_pr response"
  fetch_files :: "jsstring \<Rightarrow> (jsstring \<times> jsstring) list \<Rightarrow> gh_file list response"
  fetch_mr :: "jsstring \<Rightarrow> (jsstring \<times> jsstring) list \<Rightarrow> gl_mr response"
  fetch_changes :: "jsstring \<Rightarrow> (jsstring \<times> jsstring) list \<Rightarrow> gl_changes response"
  encodeURIComponent :: "jsstring \<Rightarrow> jsstring + jsstring"
  diff2html :: "jsstring \<Rightarrow> jsstring \<Rightarrow> jsstring + jsstring"

text \<open>\<open>x || 'Unknown'\<close> on an optional string: undefined and the empty string are falsy.\<close>

definition or_unknown :: "jsstring option \<Rightarrow> jsstring" where
  "or_unknown x = (case x of None \<Rightarrow> str ''Unknown'' | Some v \<Rightarrow> if v = [] then str ''Unknown'' else v)"

definition generateDiffHtml :: "env \<Rightarrow> ui_state \<Rightarrow> jsstring \<Rightarrow> jsstring \<Rightarrow> ui_state \<times> toast list" where
  "generateDiffHtml e s p fname =
     (let diffString = str ''diff --git a/'' @ fname @ str '' b/'' @ fname @ str ''\<newline>'' @ p;
          outputFormat = (if viewMode s = SideBySide then str ''side-by-side'' else str ''line-by-line'')
      in case diff2html e diffString outputFormat of
           Inr diffHtmlOutput \<Rightarrow> (s\<lparr>diffHtml := diffHtmlOutput\<rparr>, [])
         | Inl err \<Rightarrow>
             (s, [\<lparr>toast_title = str ''Error generating diff'',
                   toast_description = str ''Failed to parse the diff. The patch format might be invalid.'',
                   destructive = True\<rparr>]))"

text \<open>The end of both adapters: the first file is selected, and its diff rendered, when
  there is a first file and its patch is truthy (present and not empty).\<close>

definition select_first :: "env \<Rightarrow> ui_state \<Rightarrow> FileChange list \<Rightarrow> ui_state \<times> toast list" where
  "select_first e s files =
     (case files of
        [] \<Rightarrow> (s, [])
      | f # _ \<Rightarrow>
          (case patch f of
             None \<Rightarrow> (s, [])
           | Some p \<Rightarrow> if p = [] then (s, [])
                       else generateDiffHtml e (s\<lparr>selectedFile := Some f\<rparr>) p (filename f)))"

text \<open>
  An adapter returns \<open>Inl\<close> of the error message when it throws. Every throw of an adapter
  comes before its first state update, so the state at a throw is the state at entry.
  \<open>Promise.all\<close> rejects with the rejection of whichever request rejects; the model reports
  the first of the two.
\<close>

definition github_headers :: "env \<Rightarrow> (jsstring \<times> jsstring) list" where
  "github_headers e =
     [(str ''Accept'', str ''application/vnd.github.v3+json'')]
       @ (if githubToken e \<noteq> [] then [(str ''Authorization'', str ''Bearer '' @ githubToken e)] else [])"

definition github_pr_url :: "jsstring \<Rightarrow> jsstring \<Rightarrow> jsstring \<Rightarrow> jsstring" where
  "github_pr_url ow rp prNumber =
     str ''https://api.github.com/repos/'' @ ow @ str ''/'' @ rp @ str ''/pulls/'' @ prNumber"

definition github_files_url :: "jsstring \<Rightarrow> jsstring \<Rightarrow> jsstring \<Rightarrow> jsstring" where
  "github_files_url ow rp prNumber =
     str ''https://api.github.com/repos/'' @ ow @ str ''/'' @ rp @ str ''/pulls/'' @ prNumber
       @ str ''/files''"

definition github_file_change :: "gh_file \<Rightarrow> FileChange" where
  "github_file_change f =
     \<lparr>filename = gh_filename f, fstatus = gh_status f, additions = gh_additions f,
      deletions = gh_deletions f, patch = gh_patch f\<rparr>"

definition fetchGitHubPR ::
  "env \<Rightarrow> ui_state \<Rightarrow> jsstring \<Rightarrow> jsstring \<Rightarrow> jsstring \<Rightarrow> jsstring + (ui_state \<times> toast list)" where
  "fetchGitHubPR e s ow rp prNumber =
     (let headers = github_headers e;
          prResponse = fetch_pr e (github_pr_url ow rp prNumber) headers;
          filesResponse = fetch_files e (github_files_url ow rp prNumber) headers
      in case prResponse of
           Rejected err \<Rightarrow> Inl err
         | Response pr_ok pr_body \<Rightarrow>
             (case filesResponse of
                Rejected err \<Rightarrow> Inl err
              | Response files_ok files_body \<Rightarrow>
                  if \<not> pr_ok \<or> \<not> files_ok then Inl (str ''Failed to fetch GitHub PR details'')
                  else (case pr_body of
                          Inl err \<Rightarrow> Inl err
                        | Inr prData \<Rightarrow>
                            (case files_body of
                               Inl err \<Rightarrow> Inl err
                             | Inr filesData \<Rightarrow>
                                 (let files = map github_file_change filesData;
                                      s1 = s\<lparr>ui_mrTitle := pr_title prData,
                                             mrAuthor := or_unknown (pr_user_login prData),
                                             ui_filesChanged := files\<rparr>
                                  in Inr (select_first e s1 files))))))"

text \<open>The callback of \<open>map\<close> in the GitLab adapter. An absent diff gives no match array,
  and \<open>|| []\<close> makes the count zero.\<close>

definition count_matches :: "rx list \<Rightarrow> jsstring option \<Rightarrow> nat" where
  "count_matches rs d = (case d of None \<Rightarrow> 0 | Some text \<Rightarrow> length (match_all rs None text))"

definition gitlab_file_change :: "gl_change \<Rightarrow> FileChange" where
  "gitlab_file_change change =
     (let st = (if new_file change then Added
                else if deleted_file change then Removed
                else if renamed_file change then Renamed
                else Modified);
          adds = count_matches additions_rx (diff change);
          dels = count_matches deletions_rx (diff change)
      in \<lparr>filename = (case new_path change of
                        None \<Rightarrow> old_path change
                      | Some p \<Rightarrow> if p = [] then old_path change else p),
          fstatus = st,
          additions = adds,
          deletions = dels,
          patch = diff change\<rparr>)"

definition gitlab_headers :: "env \<Rightarrow> (jsstring \<times> jsstring) list" where
  "gitlab_headers e = (if gitlabToken e \<noteq> [] then [(str ''PRIVATE-TOKEN'', gitlabToken e)] else [])"

definition gitlab_mr_url :: "jsstring \<Rightarrow> jsstring \<Rightarrow> jsstring" where
  "gitlab_mr_url projectPath mrNum =
     str ''https://gitlab.com/api/v4/projects/'' @ projectPath @ str ''/merge_requests/'' @ mrNum"

definition gitlab_changes_url :: "jsstring \<Rightarrow> jsstring \<Rightarrow> jsstring" where
  "gitlab_changes_url projectPath mrNum =
     str ''https://gitlab.com/api/v4/projects/'' @ projectPath @ str ''/merge_requests/'' @ mrNum
       @ str ''/changes''"

definition fetchGitLabMR ::
  "env \<Rightarrow> ui_state \<Rightarrow> jsstring \<Rightarrow> jsstring \<Rightarrow> jsstring \<Rightarrow> jsstring + (ui_state \<times> toast list)" where
  "fetchGitLabMR e s ow rp mrNum =
     (case encodeURIComponent e (ow @ str ''/'' @ rp) of
        Inl err \<Rightarrow> Inl err
      | Inr projectPath \<Rightarrow>
     (let headers = gitlab_headers e;
          mrResponse = fetch_mr e (gitlab_mr_url projectPath mrNum) headers;
          changesResponse = fetch_changes e (gitlab_changes_url projectPath mrNum) headers
      in case mrResponse of
           Rejected err \<Rightarrow> Inl err
         | Response mr_ok mr_body \<Rightarrow>
             (case changesResponse of
                Rejected err \<Rightarrow> Inl err
              | Response changes_ok changes_body \<Rightarrow>
                  if \<not> mr_ok \<or> \<not> changes_ok then Inl (str ''Failed to fetch GitLab MR details'')
                  else (case mr_body of
                          Inl err \<Rightarrow> Inl err
                        | Inr mrData \<Rightarrow>
                            (case changes_body of
                               Inl err \<Rightarrow> Inl err
                             | Inr changesData \<Rightarrow>
                                 (let files = map gitlab_file_change
                                                (case changes changesData of None \<Rightarrow> [] | Some cs \<Rightarrow> cs);
                                      s1 = s\<lparr>ui_mrTitle := mr_title mrData,
                                             mrAuthor := or_unknown (mr_author_username mrData),
                                             ui_filesChanged := files\<rparr>
                                  in Inr (select_first e s1 files)))))))"

text \<open>Decimal text of a natural number, as a template literal prints an array length.\<close>

definition digit_char :: "nat \<Rightarrow> cu" where
  "digit_char d = chr CHR ''0'' + of_nat d"

function decimal :: "nat \<Rightarrow> jsstring" where
  "decimal n = (if n < 10 then [digit_char n] else decimal (n div 10) @ [digit_char (n mod 10)])"
  by pat_completeness auto
termination
  by (relation "measure id") auto

declare decimal.simps [simp del]

text \<open>
  The handler of the fetch button. It reads \<open>mrUrl\<close> and \<open>filesChanged\<close> from the render
  it was created in, so the count in the success toast is the one of the state at entry.
\<close>

definition handleFetchDiff :: "env \<Rightarrow> ui_state \<Rightarrow> ui_state \<times> toast list" where
  "handleFetchDiff e s =
     (if ui_mrUrl s = [] then
        (s, [\<lparr>toast_title = str ''MR URL required'',
               toast_description = str ''Please enter a merge request URL'',
               destructive = True\<rparr>])
      else case parseMRUrl (ui_mrUrl s) of
        None \<Rightarrow>
          (s, [\<lparr>toast_title = str ''Invalid URL'',
                 toast_description = str ''Please enter a valid GitHub or GitLab MR URL'',
                 destructive = True\<rparr>])
      | Some parsed \<Rightarrow>
          (let s1 = s\<lparr>isLoading := True, ui_filesChanged := [], selectedFile := None, diffHtml := []\<rparr>
           in case (if platform parsed = GitHub
                    then fetchGitHubPR e s1 (owner parsed) (repo parsed) (mrNumber parsed)
                    else fetchGitLabMR e s1 (owner parsed) (repo parsed) (mrNumber parsed)) of
                Inr (s2, toasts) \<Rightarrow>
                  (s2\<lparr>isLoading := False\<rparr>,
                   toasts @ [\<lparr>toast_title = str ''Diff loaded successfully'',
                               toast_description = str ''Loaded changes for ''
                                 @ decimal (length (ui_filesChanged s)) @ str '' files'',
                               destructive = False\<rparr>])
              | Inl err \<Rightarrow>
                  (s1\<lparr>isLoading := False\<rparr>,
                   [\<lparr>toast_title = str ''Failed to fetch diff'',
                      toast_description = err,
                      destructive = True\<rparr>])))"


section \<open>The Telegram notification function\<close>

text \<open>
  The payload, as the interfaces of the function declare it. Its numbers are JavaScript
  numbers, of a type \<open>'n\<close> that the model leaves open: the code only prints them in template
  literals, and the conversion of a number to a string is the engine's, not the
  repository's, so it is the parameter \<open>num\<close> of everything that prints a number. The counts
  and indices the code computes itself are array lengths, natural numbers below \<open>2^32\<close>,
  which the engine prints with all their decimal digits (\<open>decimal\<close>). The field \<open>id\<close> of
  an issue is \<open>issue_id\<close>.
\<close>

datatype severity = SevError | SevWarning | SevInfo

datatype review_status = Passed | Warnings | Failed

record 'n ReviewIssue =
  issue_id :: jsstring
  "file" :: jsstring
  line :: "'n"
  severity :: severity
  message :: jsstring
  rule :: jsstring
  suggestion :: "jsstring option"

record 'n TelegramNotificationRequest =
  mrTitle :: jsstring
  mrUrl :: jsstring
  author :: jsstring
  filesChanged :: "'n"
  linesAdded :: "'n"
  linesRemoved :: "'n"
  reviewTime :: jsstring
  status :: review_status
  issues :: "'n ReviewIssue list"
  summary :: jsstring

text \<open>The string values of the two union types.\<close>

definition severity_text :: "severity \<Rightarrow> jsstring" where
  "severity_text v = (case v of SevError \<Rightarrow> str ''error'' | SevWarning \<Rightarrow> str ''warning''
                       | SevInfo \<Rightarrow> str ''info'')"

definition status_text :: "review_status \<Rightarrow> jsstring" where
  "status_text v = (case v of Passed \<Rightarrow> str ''passed'' | Warnings \<Rightarrow> str ''warnings''
                     | Failed \<Rightarrow> str ''failed'')"

text \<open>
  The literals of the source outside ASCII, as UTF-16 code units: the check mark U+2705,
  the warning sign U+26A0 U+FE0F, the cross mark U+274C, the clipboard U+1F4CB, the red,
  yellow and blue circles U+1F534, U+1F7E1, U+1F535, the white circle U+26AA, the memo
  U+1F4DD, the bust U+1F464, the bar chart U+1F4CA, the folder U+1F4C1, the bullet U+2022,
  the magnifying glass U+1F50D, the light bulb U+1F4A1 and the link U+1F517.
\<close>

definition check_mark :: jsstring where "check_mark = [0x2705]"
definition warning_sign :: jsstring where "warning_sign = [0x26A0, 0xFE0F]"
definition cross_mark :: jsstring where "cross_mark = [0x274C]"
definition clipboard :: jsstring where "clipboard = [0xD83D, 0xDCCB]"
definition red_circle :: jsstring where "red_circle = [0xD83D, 0xDD34]"
definition yellow_circle :: jsstring where "yellow_circle = [0xD83D, 0xDFE1]"
definition blue_circle :: jsstring where "blue_circle = [0xD83D, 0xDD35]"
definition white_circle :: jsstring where "white_circle = [0x26AA]"
definition memo :: jsstring where "memo = [0xD83D, 0xDCDD]"
definition bust :: jsstring where "bust = [0xD83D, 0xDC64]"
definition bar_chart :: jsstring where "bar_chart = [0xD83D, 0xDCCA]"
definition folder :: jsstring where "folder = [0xD83D, 0xDCC1]"
definition bullet :: jsstring where "bullet = [0x2022]"
definition magnifier :: jsstring where "magnifier = [0xD83D, 0xDD0D]"
definition light_bulb :: jsstring where "light_bulb = [0xD83D, 0xDCA1]"
definition link_sign :: jsstring where "link_sign = [0xD83D, 0xDD17]"
definition dquote :: jsstring where "dquote = [0x22]"

definition getStatusEmoji :: "jsstring \<Rightarrow> jsstring" where
  "getStatusEmoji st =
     (if st = str ''passed'' then check_mark
      else if st = str ''warnings'' then warning_sign
      else if st = str ''failed'' then cross_mark
      else clipboard)"

definition getSeverityEmoji :: "jsstring \<Rightarrow> jsstring" where
  "getSeverityEmoji sv =
     (if sv = str ''error'' then red_circle
      else if sv = str ''warning'' then yellow_circle
      else if sv = str ''info'' then blue_circle
      else white_circle)"

text \<open>\<open>text.replace(/c/g, rep)\<close> for a one-character expression and a replacement
  without \<open>$\<close>: every occurrence of the character becomes the replacement.\<close>

definition replace_all :: "cu \<Rightarrow> jsstring \<Rightarrow> jsstring \<Rightarrow> jsstring" where
  "replace_all c rep text = concat (map (\<lambda>x. if x = c then rep else [x]) text)"

definition escapeHtml :: "jsstring \<Rightarrow> jsstring" where
  "escapeHtml text =
     replace_all (chr CHR 0x22) (str ''&quot;'')
       (replace_all (chr CHR ''>'') (str ''&gt;'')
         (replace_all (chr CHR ''<'') (str ''&lt;'')
           (replace_all (chr CHR ''&'') (str ''&amp;'') text)))"

text \<open>\<open>toUpperCase\<close>, applied by the source to the first character of a status value: on
  ASCII letters it is the shift below; other code units are left as they are here.\<close>

definition toUpperCase :: "jsstring \<Rightarrow> jsstring" where
  "toUpperCase s = map (\<lambda>c. if chr CHR ''a'' \<le> c \<and> c \<le> chr CHR ''z'' then c - 32 else c) s"

text \<open>The callback of \<open>topIssues.forEach\<close>: what one issue appends to the message.\<close>

definition issue_entry :: "('n \<Rightarrow> jsstring) \<Rightarrow> nat \<Rightarrow> 'n ReviewIssue \<Rightarrow> jsstring" where
  "issue_entry num index issue =
     (let emoji = getSeverityEmoji (severity_text (severity issue));
          line1 = decimal (index + 1) @ str ''. '' @ emoji @ str '' <code>'' @ escapeHtml (file issue)
                    @ str '':'' @ num (line issue) @ str ''</code>\<newline>'';
          shortMessage = (if length (message issue) > 80
                          then take 80 (message issue) @ str ''...''
                          else message issue)
      in line1 @ str ''   '' @ escapeHtml shortMessage @ str ''\<newline>'')"

fun forEach_issue :: "('n \<Rightarrow> jsstring) \<Rightarrow> jsstring \<Rightarrow> nat \<Rightarrow> 'n ReviewIssue list \<Rightarrow> jsstring" where
  "forEach_issue num msg index [] = msg"
| "forEach_issue num msg index (issue # rest) =
     forEach_issue num (msg @ issue_entry num index issue) (Suc index) rest"

definition buildTelegramMessage :: "('n \<Rightarrow> jsstring) \<Rightarrow> 'n TelegramNotificationRequest \<Rightarrow> jsstring" where
  "buildTelegramMessage num data =
     (let statusEmoji = getStatusEmoji (status_text (status data));
          statusText = toUpperCase (take 1 (status_text (status data))) @ drop 1 (status_text (status data));
          errorCount = length (filter (\<lambda>i. severity i = SevError) (issues data));
          warningCount = length (filter (\<lambda>i. severity i = SevWarning) (issues data));
          infoCount = length (filter (\<lambda>i. severity i = SevInfo) (issues data));
          msg = statusEmoji @ str '' <b>Code Review Complete</b>\<newline>\<newline>'';
          msg = msg @ memo @ str '' <b>MR:</b> '' @ escapeHtml (mrTitle data) @ str ''\<newline>'';
          msg = msg @ bust @ str '' <b>Author:</b> '' @ escapeHtml (author data) @ str ''\<newline>'';
          msg = msg @ bar_chart @ str '' <b>Status:</b> '' @ statusText @ str ''\<newline>\<newline>'';
          msg = msg @ folder @ str '' <b>Stats:</b>\<newline>'';
          msg = msg @ bullet @ str '' Files Changed: '' @ num (filesChanged data) @ str ''\<newline>'';
          msg = msg @ bullet @ str '' Lines Added: +'' @ num (linesAdded data) @ str ''\<newline>'';
          msg = msg @ bullet @ str '' Lines Removed: -'' @ num (linesRemoved data) @ str ''\<newline>'';
          msg = msg @ bullet @ str '' Review Time: '' @ escapeHtml (reviewTime data) @ str ''\<newline>\<newline>'';
          msg = (if length (issues data) > 0 then
                   (let msg = msg @ magnifier @ str '' <b>Issues Found:</b>\<newline>'';
                        msg = msg @ bullet @ str '' '' @ red_circle @ str '' Errors: '' @ decimal errorCount @ str ''\<newline>'';
                        msg = msg @ bullet @ str '' '' @ yellow_circle @ str '' Warnings: '' @ decimal warningCount @ str ''\<newline>'';
                        msg = msg @ bullet @ str '' '' @ blue_circle @ str '' Info: '' @ decimal infoCount @ str ''\<newline>\<newline>'';
                        topIssues = take 5 (issues data);
                        msg = msg @ clipboard @ str '' <b>Top Issues:</b>\<newline>'';
                        msg = forEach_issue num msg 0 topIssues
                    in if length (issues data) > 5
                       then msg @ str ''\<newline><i>... and '' @ decimal (length (issues data) - 5)
                              @ str '' more issues</i>\<newline>''
                       else msg)
                 else msg);
          msg = msg @ str ''\<newline>'' @ light_bulb @ str '' <b>Summary:</b>\<newline>'' @ escapeHtml (summary data)
                  @ str ''\<newline>\<newline>''
      in msg @ link_sign @ str '' <a href='' @ dquote @ escapeHtml (mrUrl data) @ dquote
           @ str ''>View Merge Request</a>'')"

text \<open>
  The request handler. The secrets are environment variables (absent or a string); the
  request body parses to a payload or \<open>req.json()\<close> throws; the call of the Telegram API
  is a parameter that maps the URL, the chat id and the text to what \<open>fetch\<close> gives: a
  rejection, or the \<open>ok\<close> flag with the parsed JSON (or a throw of \<open>response.json()\<close>).
  On a payload of the declared type the message builder does not throw, so the inner
  \<open>try\<close> around it has no error branch here; logging is left out.
\<close>

record 'n tg_result =
  error_code :: "'n option"
  description :: "jsstring option"
  message_id :: "'n option"

datatype 'n tg_reply = FetchRejected jsstring | Reply bool "jsstring + 'n tg_result"

datatype 'n response_body =
    NoBody
  | ConfigError jsstring jsstring
  | Failure jsstring jsstring
  | Success "'n option" jsstring

record 'n http_response =
  http_status :: nat
  http_headers :: "(string \<times> string) list"
  http_body :: "'n response_body"

definition corsHeaders :: "(string \<times> string) list" where
  "corsHeaders = [(''Access-Control-Allow-Origin'', ''*''),
                  (''Access-Control-Allow-Headers'', ''authorization, x-client-info, apikey, content-type'')]"

definition json_headers :: "(string \<times> string) list" where
  "json_headers = corsHeaders @ [(''Content-Type'', ''application/json'')]"

text \<open>\<open>String.prototype.includes\<close>.\<close>

fun string_includes :: "jsstring \<Rightarrow> jsstring \<Rightarrow> bool" where
  "string_includes [] t = (t = [])"
| "string_includes (c # cs) t = (prefix t (c # cs) \<or> string_includes cs t)"

text \<open>The two answers to a secret that is absent or empty (\<open>!x || x === ""\<close>).\<close>

definition missing_token :: "'n http_response" where
  "missing_token =
     \<lparr>http_status = 500, http_headers = json_headers,
      http_body = ConfigError (str ''TELEGRAM_BOT_TOKEN is not configured in Supabase secrets'')
                    (str ''Set it using: supabase secrets set TELEGRAM_BOT_TOKEN=your_bot_token'')\<rparr>"

definition missing_chat_id :: "'n http_response" where
  "missing_chat_id =
     \<lparr>http_status = 500, http_headers = json_headers,
      http_body = ConfigError (str ''TELEGRAM_CHAT_ID is not configured in Supabase secrets'')
                    (str ''Set it using: supabase secrets set TELEGRAM_CHAT_ID=your_chat_id'')\<rparr>"

text \<open>
  The numbers in the answer of Telegram come out of a JSON text, so they are finite
  numbers. The code compares the error code with 400 and 401 and tests its truthiness;
  \<open>integer_of\<close>, the second parameter the handler takes from the engine, gives the integer
  a number is when it is one. A number is strictly equal to an integer literal when it
  is that integer, and the only falsy finite number is zero.
\<close>

definition code_is :: "('n \<Rightarrow> int option) \<Rightarrow> 'n option \<Rightarrow> int \<Rightarrow> bool" where
  "code_is integer_of c k = (case c of None \<Rightarrow> False | Some x \<Rightarrow> integer_of x = Some k)"

text \<open>\<open>result.description || result.error_code || "Unknown error"\<close>: an absent or empty
  description and an absent or zero code are falsy.\<close>

definition error_msg :: "('n \<Rightarrow> jsstring) \<Rightarrow> ('n \<Rightarrow> int option) \<Rightarrow> 'n tg_result \<Rightarrow> jsstring" where
  "error_msg num integer_of result =
     (let by_code = (case error_code result of
                       None \<Rightarrow> str ''Unknown error''
                     | Some c \<Rightarrow> if integer_of c = Some 0 then str ''Unknown error'' else num c)
      in case description result of
           None \<Rightarrow> by_code
         | Some d \<Rightarrow> if d = [] then by_code else d)"

text \<open>What the handler does with the parsed answer of Telegram when the response is not
  \<open>ok\<close>: the message of the error it throws.\<close>

definition delivery_error ::
  "('n \<Rightarrow> jsstring) \<Rightarrow> ('n \<Rightarrow> int option) \<Rightarrow> jsstring \<Rightarrow> 'n tg_result \<Rightarrow> jsstring" where
  "delivery_error num integer_of TELEGRAM_CHAT_ID result =
     (let errorMsg = error_msg num integer_of result
      in if code_is integer_of (error_code result) 400
            \<and> (case description result of None \<Rightarrow> False
                 | Some d \<Rightarrow> string_includes d (str ''chat not found''))
         then str ''Invalid TELEGRAM_CHAT_ID. The bot cannot access chat: '' @ TELEGRAM_CHAT_ID
                @ str ''. Make sure to start the bot first by sending /start''
         else if code_is integer_of (error_code result) 401
         then str ''Invalid TELEGRAM_BOT_TOKEN. Please check your bot token.''
         else str ''Telegram API error (''
                @ (case error_code result of None \<Rightarrow> str ''undefined''
                   | Some c \<Rightarrow> num c)
                @ str ''): '' @ errorMsg)"

text \<open>The \<open>try\<close> block of the handler: \<open>Inl\<close> is the message of the error it throws.\<close>

definition try_block ::
  "('n \<Rightarrow> jsstring) \<Rightarrow> ('n \<Rightarrow> int option) \<Rightarrow>
   jsstring option \<Rightarrow> jsstring option \<Rightarrow> jsstring + 'n TelegramNotificationRequest \<Rightarrow>
   (jsstring \<Rightarrow> jsstring \<Rightarrow> jsstring \<Rightarrow> 'n tg_reply) \<Rightarrow> jsstring + 'n http_response" where
  "try_block num integer_of TELEGRAM_BOT_TOKEN TELEGRAM_CHAT_ID req_json telegram =
     (case TELEGRAM_BOT_TOKEN of
        None \<Rightarrow> Inr missing_token
      | Some token \<Rightarrow>
          if token = [] then Inr missing_token
          else (case TELEGRAM_CHAT_ID of
                  None \<Rightarrow> Inr missing_chat_id
                | Some chat \<Rightarrow>
                    if chat = [] then Inr missing_chat_id
                    else (case req_json of
                            Inl err \<Rightarrow> Inl err
                          | Inr data \<Rightarrow>
                              (let msg = buildTelegramMessage num data;
                                   telegramUrl = str ''https://api.telegram.org/bot'' @ token
                                                   @ str ''/sendMessage''
                               in case telegram telegramUrl chat msg of
                                    FetchRejected err \<Rightarrow> Inl err
                                  | Reply ok res_json \<Rightarrow>
                                      (case res_json of
                                         Inl err \<Rightarrow> Inl err
                                       | Inr result \<Rightarrow>
                                           if \<not> ok then Inl (delivery_error num integer_of chat result)
                                           else Inr \<lparr>http_status = 200, http_headers = json_headers,
                                                     http_body = Success (message_id result) chat\<rparr>)))))"

definition serve_handler ::
  "('n \<Rightarrow> jsstring) \<Rightarrow> ('n \<Rightarrow> int option) \<Rightarrow>
   jsstring \<Rightarrow> jsstring option \<Rightarrow> jsstring option \<Rightarrow> jsstring + 'n TelegramNotificationRequest \<Rightarrow>
   (jsstring \<Rightarrow> jsstring \<Rightarrow> jsstring \<Rightarrow> 'n tg_reply) \<Rightarrow> 'n http_response" where
  "serve_handler num integer_of req_method TELEGRAM_BOT_TOKEN TELEGRAM_CHAT_ID req_json telegram =
     (if req_method = str ''OPTIONS'' then
        \<lparr>http_status = 200, http_headers = corsHeaders, http_body = NoBody\<rparr>
      else case try_block num integer_of TELEGRAM_BOT_TOKEN TELEGRAM_CHAT_ID req_json telegram of
             Inr resp \<Rightarrow> resp
           | Inl errorMessage \<Rightarrow>
               \<lparr>http_status = 500, http_headers = json_headers,
                http_body = Failure errorMessage (str ''Check the function logs for more details'')\<rparr>)"

section \<open>Vocabulary of the properties\<close>







text \<open>
  The lines of a text, split at line feeds as \<open>split("\n")\<close> does, and the count the
  specification describes: the lines that begin with the sign and do not go on with a
  second one.
\<close>

fun split_lines :: "jsstring \<Rightarrow> jsstring list" where
  "split_lines [] = [[]]"
| "split_lines (c # cs) =
     (if c = 0x0A then [] # split_lines cs
      else (case split_lines cs of [] \<Rightarrow> [[c]] | l # ls \<Rightarrow> (c # l) # ls))"

definition single_sign :: "cu \<Rightarrow> jsstring \<Rightarrow> bool" where
  "single_sign x l = (case l of [] \<Rightarrow> False
                      | a # t \<Rightarrow> a = x \<and> (case t of [] \<Rightarrow> True | b # _ \<Rightarrow> b \<noteq> x))"

definition count_lines :: "cu \<Rightarrow> jsstring \<Rightarrow> nat" where
  "count_lines x s = length (filter (single_sign x) (split_lines s))"

text \<open>A text in which every line ends with a line feed and no other line terminator
  occurs.\<close>

definition lf_terminated :: "jsstring \<Rightarrow> bool" where
  "lf_terminated s = ((s = [] \<or> last s = 0x0A) \<and> list_all (\<lambda>c. line_terminator c \<longrightarrow> c = 0x0A) s)"

text \<open>
  The count the two expressions of the adapter produce, position by position: a position
  counts when it starts a line, holds the sign and is followed by one more code unit
  that is not the sign.
\<close>

fun count_starts :: "cu \<Rightarrow> cu option \<Rightarrow> jsstring \<Rightarrow> nat" where
  "count_starts x prev [] = 0"
| "count_starts x prev (c # cs) =
     (if at_bol prev \<and> c = x \<and> cs \<noteq> [] \<and> hd cs \<noteq> x then 1 else 0) + count_starts x (Some c) cs"

text \<open>
  What \<open>escapeHtml\<close> makes of one code unit; the three characters it must remove (\<open><\<close>, \<open>>\<close> and
  the double quote); a text that starts with one of the four entities; a code unit that
  escaping leaves alone; and a text in which every \<open>&\<close> starts an entity.
\<close>

definition esc_char :: "cu \<Rightarrow> jsstring" where
  "esc_char c =
     (if c = chr CHR ''&'' then str ''&amp;''
      else if c = chr CHR ''<'' then str ''&lt;''
      else if c = chr CHR ''>'' then str ''&gt;''
      else if c = chr CHR 0x22 then str ''&quot;''
      else [c])"

definition is_markup :: "cu \<Rightarrow> bool" where
  "is_markup c = (c = chr CHR ''<'' \<or> c = chr CHR ''>'' \<or> c = chr CHR 0x22)"

definition entity_at :: "jsstring \<Rightarrow> bool" where
  "entity_at t = (prefix (str ''&amp;'') t \<or> prefix (str ''&lt;'') t
                  \<or> prefix (str ''&gt;'') t \<or> prefix (str ''&quot;'') t)"

definition plain :: "cu \<Rightarrow> bool" where
  "plain c = (c \<noteq> chr CHR ''&'' \<and> \<not> is_markup c)"

fun amps_ok :: "jsstring \<Rightarrow> bool" where
  "amps_ok [] = True"
| "amps_ok (c # cs) = ((c = chr CHR ''&'' \<longrightarrow> entity_at (c # cs)) \<and> amps_ok cs)"

text \<open>
  The message in three parts, as the builder appends them: the lines before the issues,
  the block of the issues (empty without issues), and the summary with the link.
\<close>

definition message_head :: "('n \<Rightarrow> jsstring) \<Rightarrow> 'n TelegramNotificationRequest \<Rightarrow> jsstring" where
  "message_head num data =
     getStatusEmoji (status_text (status data)) @ str '' <b>Code Review Complete</b>\<newline>\<newline>''
     @ memo @ str '' <b>MR:</b> '' @ escapeHtml (mrTitle data) @ str ''\<newline>''
     @ bust @ str '' <b>Author:</b> '' @ escapeHtml (author data) @ str ''\<newline>''
     @ bar_chart @ str '' <b>Status:</b> ''
     @ toUpperCase (take 1 (status_text (status data))) @ drop 1 (status_text (status data))
     @ str ''\<newline>\<newline>''
     @ folder @ str '' <b>Stats:</b>\<newline>''
     @ bullet @ str '' Files Changed: '' @ num (filesChanged data) @ str ''\<newline>''
     @ bullet @ str '' Lines Added: +'' @ num (linesAdded data) @ str ''\<newline>''
     @ bullet @ str '' Lines Removed: -'' @ num (linesRemoved data) @ str ''\<newline>''
     @ bullet @ str '' Review Time: '' @ escapeHtml (reviewTime data) @ str ''\<newline>\<newline>''"

definition issues_block :: "('n \<Rightarrow> jsstring) \<Rightarrow> 'n ReviewIssue list \<Rightarrow> jsstring" where
  "issues_block num xs =
     (if xs = [] then []
      else magnifier @ str '' <b>Issues Found:</b>\<newline>''
        @ bullet @ str '' '' @ red_circle @ str '' Errors: ''
        @ decimal (length (filter (\<lambda>i. severity i = SevError) xs)) @ str ''\<newline>''
        @ bullet @ str '' '' @ yellow_circle @ str '' Warnings: ''
        @ decimal (length (filter (\<lambda>i. severity i = SevWarning) xs)) @ str ''\<newline>''
        @ bullet @ str '' '' @ blue_circle @ str '' Info: ''
        @ decimal (length (filter (\<lambda>i. severity i = SevInfo) xs)) @ str ''\<newline>\<newline>''
        @ clipboard @ str '' <b>Top Issues:</b>\<newline>''
        @ forEach_issue num [] 0 (take 5 xs)
        @ (if length xs > 5
           then str ''\<newline><i>... and '' @ decimal (length xs - 5) @ str '' more issues</i>\<newline>''
           else []))"

definition message_tail :: "'n TelegramNotificationRequest \<Rightarrow> jsstring" where
  "message_tail data =
     str ''\<newline>'' @ light_bulb @ str '' <b>Summary:</b>\<newline>'' @ escapeHtml (summary data)
     @ str ''\<newline>\<newline>''
     @ link_sign @ str '' <a href='' @ dquote @ escapeHtml (mrUrl data) @ dquote
     @ str ''>View Merge Request</a>''"

text \<open>
  The text of an issue as the message shows it (the \<open>shortMessage\<close> of the source), and
  a payload with every text field emptied: title, URL, author, review time, summary and
  the file and message of every issue.
\<close>

definition shown_message :: "jsstring \<Rightarrow> jsstring" where
  "shown_message m = (if length m > 80 then take 80 m @ str ''...'' else m)"

definition blank_issue :: "'n ReviewIssue \<Rightarrow> 'n ReviewIssue" where
  "blank_issue x = x\<lparr>file := [], message := []\<rparr>"

definition blank_texts :: "'n TelegramNotificationRequest \<Rightarrow> 'n TelegramNotificationRequest" where
  "blank_texts data =
     data\<lparr>mrTitle := [], mrUrl := [], author := [], reviewTime := [],
           issues := map blank_issue (issues data), summary := []\<rparr>"

subsection \<open>Example inputs\<close>

text \<open>
  A page that shows the result of an earlier fetch, a network that answers every request
  of a kind with the same response, and the files, requests and changes used as concrete
  inputs below. In the example network \<open>encodeURIComponent\<close> only replaces the slash, which
  is what it does on the owner and repository names of the examples, and the diff library
  returns its input.
\<close>

definition old_file :: FileChange where
  "old_file = \<lparr>filename = str ''old.ts'', fstatus = Modified, additions = 1, deletions = 0,
               patch = Some (str ''+x'')\<rparr>"

definition example_state :: "jsstring \<Rightarrow> ui_state" where
  "example_state url =
     \<lparr>ui_mrUrl = url, isLoading = False, ui_filesChanged = [old_file],
      selectedFile = Some old_file, diffHtml = str ''<p>old</p>'', viewMode = SideBySide,
      ui_mrTitle = str ''Old title'', mrAuthor = str ''alice''\<rparr>"

definition constant_env ::
  "gh_pr response \<Rightarrow> gh_file list response \<Rightarrow> gl_mr response \<Rightarrow> gl_changes response \<Rightarrow> env" where
  "constant_env pr files mr chs =
     \<lparr>githubToken = [], gitlabToken = [],
      fetch_pr = (\<lambda>url headers. pr), fetch_files = (\<lambda>url headers. files),
      fetch_mr = (\<lambda>url headers. mr), fetch_changes = (\<lambda>url headers. chs),
      encodeURIComponent = (\<lambda>t. Inr (replace_all (chr CHR ''/'') (str ''%2F'') t)),
      diff2html = (\<lambda>d fmt. Inr d)\<rparr>"

definition binary_file :: gh_file where
  "binary_file = \<lparr>gh_filename = str ''logo.png'', gh_status = Added, gh_additions = 0,
                  gh_deletions = 0, gh_patch = None\<rparr>"

definition text_file :: gh_file where
  "text_file = \<lparr>gh_filename = str ''a.ts'', gh_status = Modified, gh_additions = 1,
                gh_deletions = 0, gh_patch = Some (str ''+x'')\<rparr>"

definition example_pr :: gh_pr where
  "example_pr = \<lparr>pr_title = str ''New title'', pr_user_login = Some (str ''bob'')\<rparr>"

definition example_mr :: gl_mr where
  "example_mr = \<lparr>mr_title = str ''New title'', mr_author_username = Some (str ''bob'')\<rparr>"

definition github_url :: jsstring where
  "github_url = str ''https://github.com/acme/widgets/pull/42''"

definition gitlab_url :: jsstring where
  "gitlab_url = str ''https://gitlab.com/acme/widgets/-/merge_requests/7''"

definition change_with_flags :: "bool \<Rightarrow> bool \<Rightarrow> bool \<Rightarrow> gl_change" where
  "change_with_flags n d r = \<lparr>new_file = n, deleted_file = d, renamed_file = r, diff = None,
                  new_path = Some (str ''b.ts''), old_path = str ''a.ts''\<rparr>"


definition working_env :: env where
  "working_env = constant_env (Response True (Inr example_pr)) (Response True (Inr [text_file]))
                   (Response True (Inr example_mr)) (Response True (Inr \<lparr>changes = None\<rparr>))"

text \<open>A GitLab change with a given diff, and the fragment of the specification's scenario.\<close>

definition with_diff :: "jsstring \<Rightarrow> gl_change" where
  "with_diff d = \<lparr>new_file = False, deleted_file = False, renamed_file = False, diff = Some d,
                  new_path = Some (str ''a.ts''), old_path = str ''a.ts''\<rparr>"

definition diff_fragment :: jsstring where
  "diff_fragment = str ''+foo\<newline>++bar\<newline>-baz\<newline>--qux\<newline>''"

text \<open>
  The numbers of the examples are integers far below \<open>2^53\<close>. On those the engine prints
  the decimal digits, with a minus sign before a negative number, and each is the integer
  it is: \<open>print_integer\<close> and \<open>Some\<close> are the two parameters of the examples.
\<close>

definition print_integer :: "int \<Rightarrow> jsstring" where
  "print_integer i = (if i < 0 then chr CHR ''-'' # decimal (nat (- i)) else decimal (nat i))"

text \<open>
  A notification payload with six issues, the first with a message of 86 characters, and
  a Telegram API that gives one fixed answer.
\<close>

definition example_issue :: "jsstring \<Rightarrow> severity \<Rightarrow> jsstring \<Rightarrow> int ReviewIssue" where
  "example_issue f sv m =
     \<lparr>issue_id = str ''1'', file = f, line = 7, severity = sv, message = m,
      rule = str ''no-unused'', suggestion = None\<rparr>"

definition long_message :: jsstring where
  "long_message = replicate 80 (chr CHR ''a'') @ str ''<tail>''"

definition example_request :: "int TelegramNotificationRequest" where
  "example_request =
     \<lparr>mrTitle = str ''Fix <b> & more'', mrUrl = str ''https://gitlab.com/acme/widgets/-/merge_requests/7'',
      author = str ''bob'', filesChanged = 3, linesAdded = 10, linesRemoved = 2,
      reviewTime = str ''1.2s'', status = Warnings,
      issues = [example_issue (str ''a.ts'') SevError long_message,
                example_issue (str ''b.ts'') SevWarning (str ''x < y''),
                example_issue (str ''c.ts'') SevInfo (str ''third''),
                example_issue (str ''d.ts'') SevInfo (str ''fourth''),
                example_issue (str ''e.ts'') SevInfo (str ''fifth''),
                example_issue (str ''f.ts'') SevError (str ''sixth'')],
      summary = str ''Two '' @ dquote @ str ''real'' @ dquote @ str '' problems''\<rparr>"

definition telegram_answers :: "'n tg_reply \<Rightarrow> jsstring \<Rightarrow> jsstring \<Rightarrow> jsstring \<Rightarrow> 'n tg_reply" where
  "telegram_answers r url chat_id text = r"

definition tg_error :: "int \<Rightarrow> string \<Rightarrow> int tg_reply" where
  "tg_error code d =
     Reply False (Inr \<lparr>error_code = Some code, description = Some (str d), message_id = None\<rparr>)"

section \<open>The URL resolver recognises exactly the two shapes\<close>
















lemma slash_not_not_slash: "c = chr CHR ''/'' \<Longrightarrow> \<not> not_slash c"
  by (simp add: not_slash_def)
























section \<open>The example inputs resolve\<close>

lemma parse_github_url:
  "parseMRUrl github_url =
     Some \<lparr>platform = GitHub, owner = str ''acme'', repo = str ''widgets'', mrNumber = str ''42''\<rparr>"
  unfolding github_url_def by code_simp

lemma parse_gitlab_url:
  "parseMRUrl gitlab_url =
     Some \<lparr>platform = GitLab, owner = str ''acme'', repo = str ''widgets'', mrNumber = str ''7''\<rparr>"
  unfolding gitlab_url_def by code_simp

lemma github_url_nonempty: "github_url \<noteq> []" "gitlab_url \<noteq> []"
  by (simp_all add: github_url_def gitlab_url_def str_def)

lemma parseMRUrl_Nil: "parseMRUrl [] = None"
  by code_simp

section \<open>The status of a GitLab change\<close>

text \<open>
  Claim C4, as amended. The status of a GitLab change is \<open>added\<close> when the new-file flag
  is set; otherwise \<open>removed\<close> when the deleted-file flag is set; otherwise \<open>renamed\<close> when
  the renamed-file flag is set; otherwise \<open>modified\<close>. The flags are tried in this order,
  so an inconsistent combination gets the status of the first flag that is set; the
  classification is total, no combination fails.
\<close>

theorem gitlab_status_priority:
  "(new_file c \<longrightarrow> fstatus (gitlab_file_change c) = Added)
   \<and> (\<not> new_file c \<and> deleted_file c \<longrightarrow> fstatus (gitlab_file_change c) = Removed)
   \<and> (\<not> new_file c \<and> \<not> deleted_file c \<and> renamed_file c \<longrightarrow> fstatus (gitlab_file_change c) = Renamed)
   \<and> (\<not> new_file c \<and> \<not> deleted_file c \<and> \<not> renamed_file c \<longrightarrow> fstatus (gitlab_file_change c) = Modified)"
  by (simp add: gitlab_file_change_def)

theorem gitlab_status_priority_witness:
  "fstatus (gitlab_file_change (change_with_flags True False True)) = Added
   \<and> fstatus (gitlab_file_change (change_with_flags False True True)) = Removed
   \<and> fstatus (gitlab_file_change (change_with_flags False False True)) = Renamed
   \<and> fstatus (gitlab_file_change (change_with_flags False False False)) = Modified"
  using gitlab_status_priority[of "change_with_flags True False True"]
    gitlab_status_priority[of "change_with_flags False True True"]
    gitlab_status_priority[of "change_with_flags False False True"]
    gitlab_status_priority[of "change_with_flags False False False"]
  by (simp add: change_with_flags_def)

text \<open>
  Claim C4 as stated asks for \<open>modified\<close> whenever the flags are inconsistent. A change
  flagged both new and renamed gets \<open>added\<close>.
\<close>

theorem gitlab_status_counterexample:
  "fstatus (gitlab_file_change \<lparr>new_file = True, deleted_file = False, renamed_file = True,
      diff = None, new_path = Some (str ''b.ts''), old_path = str ''a.ts''\<rparr>) = Added
   \<and> fstatus (gitlab_file_change \<lparr>new_file = True, deleted_file = False, renamed_file = True,
      diff = None, new_path = Some (str ''b.ts''), old_path = str ''a.ts''\<rparr>) \<noteq> Modified"
  by (simp add: gitlab_file_change_def)

section \<open>The selection after a fetch\<close>

lemma select_first_selectedFile:
  "selectedFile (fst (select_first e s files)) =
     (case files of [] \<Rightarrow> selectedFile s
      | f # _ \<Rightarrow> (case patch f of None \<Rightarrow> selectedFile s
                  | Some p \<Rightarrow> if p = [] then selectedFile s else Some f))"
  by (auto simp: select_first_def generateDiffHtml_def Let_def split: list.splits option.splits sum.splits)

lemma select_first_keeps:
  "ui_filesChanged (fst (select_first e s files)) = ui_filesChanged s"
  "ui_mrTitle (fst (select_first e s files)) = ui_mrTitle s"
  "mrAuthor (fst (select_first e s files)) = mrAuthor s"
  "ui_mrUrl (fst (select_first e s files)) = ui_mrUrl s"
  "isLoading (fst (select_first e s files)) = isLoading s"
  by (auto simp: select_first_def generateDiffHtml_def Let_def split: list.splits option.splits sum.splits)

lemma fetchGitHubPR_Inr:
  assumes "fetchGitHubPR e s ow rp n = Inr (s', ts)"
  shows "\<exists>prData filesData.
           fetch_pr e (github_pr_url ow rp n) (github_headers e) = Response True (Inr prData)
         \<and> fetch_files e (github_files_url ow rp n) (github_headers e) = Response True (Inr filesData)
         \<and> (s', ts) = select_first e
              (s\<lparr>ui_mrTitle := pr_title prData, mrAuthor := or_unknown (pr_user_login prData),
                 ui_filesChanged := map github_file_change filesData\<rparr>)
              (map github_file_change filesData)"
  using assms
  by (auto simp: fetchGitHubPR_def Let_def split: response.splits sum.splits if_splits)

lemma fetchGitLabMR_Inr:
  assumes "fetchGitLabMR e s ow rp n = Inr (s', ts)"
  shows "\<exists>pp mrData changesData.
           encodeURIComponent e (ow @ str ''/'' @ rp) = Inr pp
         \<and> fetch_mr e (gitlab_mr_url pp n) (gitlab_headers e) = Response True (Inr mrData)
         \<and> fetch_changes e (gitlab_changes_url pp n) (gitlab_headers e) = Response True (Inr changesData)
         \<and> (s', ts) = select_first e
              (s\<lparr>ui_mrTitle := mr_title mrData, mrAuthor := or_unknown (mr_author_username mrData),
                 ui_filesChanged := map gitlab_file_change
                    (case changes changesData of None \<Rightarrow> [] | Some cs \<Rightarrow> cs)\<rparr>)
              (map gitlab_file_change (case changes changesData of None \<Rightarrow> [] | Some cs \<Rightarrow> cs))"
  using assms
  by (auto simp: fetchGitLabMR_def Let_def split: response.splits sum.splits if_splits)


lemma adapter_selection:
  assumes "(if platform parsed = GitHub
            then fetchGitHubPR e s1 (owner parsed) (repo parsed) (mrNumber parsed)
            else fetchGitLabMR e s1 (owner parsed) (repo parsed) (mrNumber parsed)) = Inr (s2, ts)"
  shows "selectedFile s2 =
     (case ui_filesChanged s2 of [] \<Rightarrow> selectedFile s1
      | f # _ \<Rightarrow> (case patch f of None \<Rightarrow> selectedFile s1
                  | Some p \<Rightarrow> if p = [] then selectedFile s1 else Some f))"
proof (cases "platform parsed = GitHub")
  case True
  with assms have "fetchGitHubPR e s1 (owner parsed) (repo parsed) (mrNumber parsed) = Inr (s2, ts)"
    by simp
  from fetchGitHubPR_Inr[OF this] obtain s0 files where "(s2, ts) = select_first e s0 files"
    and "ui_filesChanged s0 = files" and "selectedFile s0 = selectedFile s1"
    by force
  then have "s2 = fst (select_first e s0 files)" by (metis fst_conv)
  then show ?thesis
    using \<open>ui_filesChanged s0 = files\<close> \<open>selectedFile s0 = selectedFile s1\<close>
    by (simp add: select_first_selectedFile select_first_keeps split: list.splits option.splits)
next
  case False
  with assms have "fetchGitLabMR e s1 (owner parsed) (repo parsed) (mrNumber parsed) = Inr (s2, ts)"
    by simp
  from fetchGitLabMR_Inr[OF this] obtain s0 files where "(s2, ts) = select_first e s0 files"
    and "ui_filesChanged s0 = files" and "selectedFile s0 = selectedFile s1"
    by force
  then have "s2 = fst (select_first e s0 files)" by (metis fst_conv)
  then show ?thesis
    using \<open>ui_filesChanged s0 = files\<close> \<open>selectedFile s0 = selectedFile s1\<close>
    by (simp add: select_first_selectedFile select_first_keeps split: list.splits option.splits)
qed

text \<open>
  Claim C3, as amended. After a fetch for a recognised URL, through either adapter, the
  selected file is the first entry of the file list when that entry has a non-empty
  patch; no file is selected when the list is empty or when its first entry has no patch
  or an empty one, whatever the later entries hold.
\<close>

theorem first_file_selection:
  assumes "parseMRUrl (ui_mrUrl s) \<noteq> None"
  shows "selectedFile (fst (handleFetchDiff e s)) =
     (case ui_filesChanged (fst (handleFetchDiff e s)) of
        [] \<Rightarrow> None
      | f # _ \<Rightarrow> (case patch f of None \<Rightarrow> None
                  | Some p \<Rightarrow> if p = [] then None else Some f))"
proof -
  from assms obtain parsed where p: "parseMRUrl (ui_mrUrl s) = Some parsed" by blast
  then have ne: "ui_mrUrl s \<noteq> []" using parseMRUrl_Nil by auto
  define s1 where "s1 = s\<lparr>isLoading := True, ui_filesChanged := [], selectedFile := None, diffHtml := []\<rparr>"
  define r where "r = (if platform parsed = GitHub
            then fetchGitHubPR e s1 (owner parsed) (repo parsed) (mrNumber parsed)
            else fetchGitLabMR e s1 (owner parsed) (repo parsed) (mrNumber parsed))"
  have h: "handleFetchDiff e s =
     (case r of
        Inr (s2, toasts) \<Rightarrow>
          (s2\<lparr>isLoading := False\<rparr>,
           toasts @ [\<lparr>toast_title = str ''Diff loaded successfully'',
                       toast_description = str ''Loaded changes for ''
                         @ decimal (length (ui_filesChanged s)) @ str '' files'',
                       destructive = False\<rparr>])
      | Inl err \<Rightarrow>
          (s1\<lparr>isLoading := False\<rparr>,
           [\<lparr>toast_title = str ''Failed to fetch diff'', toast_description = err,
              destructive = True\<rparr>]))"
    using p ne by (simp add: handleFetchDiff_def Let_def s1_def r_def cong: sum.case_cong)
  show ?thesis
  proof (cases r)
    case (Inl err)
    then show ?thesis by (simp add: h s1_def)
  next
    case (Inr x)
    obtain s2 ts where x: "x = (s2, ts)" by (cases x)
    from Inr x have "selectedFile s2 =
     (case ui_filesChanged s2 of [] \<Rightarrow> selectedFile s1
      | f # _ \<Rightarrow> (case patch f of None \<Rightarrow> selectedFile s1
                  | Some p \<Rightarrow> if p = [] then selectedFile s1 else Some f))"
      unfolding r_def by (intro adapter_selection) simp
    moreover have "selectedFile s1 = None" by (simp add: s1_def)
    ultimately show ?thesis using Inr x by (simp add: h split: list.splits option.splits)
  qed
qed

theorem first_file_selection_witness:
  "parseMRUrl (ui_mrUrl (example_state github_url)) \<noteq> None
   \<and> selectedFile (fst (handleFetchDiff
        (constant_env (Response True (Inr example_pr)) (Response True (Inr [text_file, binary_file]))
           (Rejected []) (Rejected []))
        (example_state github_url))) = Some (github_file_change text_file)"
proof -
  let ?e = "constant_env (Response True (Inr example_pr)) (Response True (Inr [text_file, binary_file]))
           (Rejected []) (Rejected [])"
  have p: "parseMRUrl (ui_mrUrl (example_state github_url)) \<noteq> None"
    by (simp add: example_state_def parse_github_url)
  have f: "ui_filesChanged (fst (handleFetchDiff ?e (example_state github_url)))
             = [github_file_change text_file, github_file_change binary_file]"
    by (simp add: handleFetchDiff_def example_state_def parse_github_url github_url_nonempty
          fetchGitHubPR_def constant_env_def Let_def select_first_keeps case_prod_beta)
  have "patch (github_file_change text_file) = Some (str ''+x'')" "str ''+x'' \<noteq> []"
    by (simp_all add: github_file_change_def text_file_def str_def)
  with first_file_selection[OF p, of ?e] f p show ?thesis by simp
qed

text \<open>
  Claim C3 as stated selects the first entry that has a non-empty patch. For a GitHub
  answer whose first file has no patch (a binary file) and whose second file has one,
  no file is selected.
\<close>

theorem first_file_selection_counterexample:
  "selectedFile (fst (handleFetchDiff
        (constant_env (Response True (Inr example_pr)) (Response True (Inr [binary_file, text_file]))
           (Rejected []) (Rejected []))
        (example_state github_url))) = None
   \<and> find (\<lambda>f. patch f \<noteq> None \<and> patch f \<noteq> Some [])
        (ui_filesChanged (fst (handleFetchDiff
          (constant_env (Response True (Inr example_pr)) (Response True (Inr [binary_file, text_file]))
             (Rejected []) (Rejected []))
          (example_state github_url)))) = Some (github_file_change text_file)"
  by (simp add: handleFetchDiff_def example_state_def parse_github_url github_url_nonempty
        fetchGitHubPR_def constant_env_def Let_def select_first_def github_file_change_def
        binary_file_def text_file_def str_def)


section \<open>The page state across a fetch\<close>





lemma fetchGitLabMR_ok:
  assumes "encodeURIComponent e (ow @ str ''/'' @ rp) = Inr pp"
    and "fetch_mr e (gitlab_mr_url pp n) (gitlab_headers e) = Response True (Inr mrData)"
    and "fetch_changes e (gitlab_changes_url pp n) (gitlab_headers e) = Response True (Inr changesData)"
  shows "fetchGitLabMR e s ow rp n =
           Inr (select_first e
              (s\<lparr>ui_mrTitle := mr_title mrData, mrAuthor := or_unknown (mr_author_username mrData),
                 ui_filesChanged := map gitlab_file_change
                    (case changes changesData of None \<Rightarrow> [] | Some cs \<Rightarrow> cs)\<rparr>)
              (map gitlab_file_change (case changes changesData of None \<Rightarrow> [] | Some cs \<Rightarrow> cs)))"
  using assms by (simp add: fetchGitLabMR_def Let_def)



lemma constant_env_simps:
  "fetch_pr (constant_env a b c d) url h = a"
  "fetch_files (constant_env a b c d) url h = b"
  "fetch_mr (constant_env a b c d) url h = c"
  "fetch_changes (constant_env a b c d) url h = d"
  "encodeURIComponent (constant_env a b c d) t = Inr (replace_all (chr CHR ''/'') (str ''%2F'') t)"
  by (simp_all add: constant_env_def)



section \<open>Absent fields of a GitLab response\<close>

text \<open>
  Claim C10. When both GitLab requests succeed and the changes response has no
  \<open>changes\<close> array, the adapter returns normally with an empty file list, selects no file
  (the selection is left as it was, which is none during a fetch) and shows no notice;
  and a change without a diff gets zero additions and zero deletions.
\<close>

theorem gitlab_missing_fields:
  "(encodeURIComponent e (ow @ str ''/'' @ rp) = Inr pp
     \<and> fetch_mr e (gitlab_mr_url pp n) (gitlab_headers e) = Response True (Inr mrData)
     \<and> fetch_changes e (gitlab_changes_url pp n) (gitlab_headers e) = Response True (Inr changesData)
     \<and> changes changesData = None
    \<longrightarrow> fetchGitLabMR e s ow rp n =
          Inr (s\<lparr>ui_mrTitle := mr_title mrData, mrAuthor := or_unknown (mr_author_username mrData),
                 ui_filesChanged := []\<rparr>, []))
   \<and> (diff c = None \<longrightarrow> additions (gitlab_file_change c) = 0 \<and> deletions (gitlab_file_change c) = 0)"
  by (simp add: fetchGitLabMR_ok select_first_def gitlab_file_change_def count_matches_def)

theorem gitlab_missing_fields_witness:
  "fetchGitLabMR working_env (example_state gitlab_url) (str ''acme'') (str ''widgets'') (str ''7'') =
          Inr ((example_state gitlab_url)\<lparr>ui_mrTitle := str ''New title'', mrAuthor := str ''bob'',
                 ui_filesChanged := []\<rparr>, [])
   \<and> selectedFile (fst (handleFetchDiff working_env (example_state gitlab_url))) = None
   \<and> additions (gitlab_file_change (change_with_flags False False False)) = 0
   \<and> deletions (gitlab_file_change (change_with_flags False False False)) = 0"
proof -
  note a = gitlab_missing_fields[where e = working_env and ow = "str ''acme''" and rp = "str ''widgets''"
      and n = "str ''7''" and mrData = example_mr and changesData = "\<lparr>changes = None\<rparr>"
      and s = "example_state gitlab_url" and c = "change_with_flags False False False"
      and pp = "replace_all (chr CHR ''/'') (str ''%2F'') (str ''acme'' @ str ''/'' @ str ''widgets'')"]
  have o: "or_unknown (Some (str ''bob'')) = str ''bob''"
    by (simp add: or_unknown_def str_def)
  from a have A: "fetchGitLabMR working_env (example_state gitlab_url) (str ''acme'') (str ''widgets'') (str ''7'') =
          Inr ((example_state gitlab_url)\<lparr>ui_mrTitle := str ''New title'', mrAuthor := str ''bob'',
                 ui_filesChanged := []\<rparr>, [])"
    and B: "additions (gitlab_file_change (change_with_flags False False False)) = 0
            \<and> deletions (gitlab_file_change (change_with_flags False False False)) = 0"
    by (simp_all add: working_env_def constant_env_simps example_mr_def change_with_flags_def o)
  have "selectedFile (fst (handleFetchDiff working_env (example_state gitlab_url))) = None"
    using A by (simp add: handleFetchDiff_def example_state_def parse_gitlab_url github_url_nonempty Let_def
        fetchGitLabMR_def working_env_def constant_env_def select_first_def example_mr_def)
  with A B show ?thesis by simp
qed

section \<open>The line counts of the GitLab adapter\<close>

lemma match_here_sign:
  "match_here (sign_rx x) prev s =
     (if at_bol prev then
        (case s of a # b # rest \<Rightarrow> if a = x \<and> b \<noteq> x then Some ([], rest) else None
         | _ \<Rightarrow> None)
      else None)"
  by (simp add: sign_rx_def split: list.splits)

lemma exec_from_sign:
  "(case exec_from (sign_rx x) prev s of
      None \<Rightarrow> count_starts x prev s = 0
    | Some (sk, caps, rest) \<Rightarrow>
        (\<exists>b. b \<noteq> x \<and> s = sk @ x # b # rest
            \<and> count_starts x prev s = Suc (count_starts x (Some b) rest)))"
proof (induction s arbitrary: prev)
  case Nil
  show ?case by (simp add: match_here_sign del: match_here.simps)
next
  case (Cons c cs)
  show ?case
  proof (cases "match_here (sign_rx x) prev (c # cs)")
    case (Some r)
    then obtain b rest where "at_bol prev" "c = x" "cs = b # rest" "b \<noteq> x" "r = ([], rest)"
      by (auto simp: match_here_sign simp del: match_here.simps split: if_splits list.splits)
    then show ?thesis using Some by (simp del: match_here.simps)
  next
    case None
    then have z: "\<not> (at_bol prev \<and> c = x \<and> cs \<noteq> [] \<and> hd cs \<noteq> x)"
      by (auto simp: match_here_sign simp del: match_here.simps split: if_splits list.splits)
    show ?thesis
    proof (cases "exec_from (sign_rx x) (Some c) cs")
      case N: None
      with Cons.IH[of "Some c"] None z show ?thesis by (simp del: match_here.simps)
    next
      case (Some r)
      obtain sk caps rest where r: "r = (sk, caps, rest)" by (cases r)
      with Cons.IH[of "Some c"] Some obtain b where "b \<noteq> x" "cs = sk @ x # b # rest"
        "count_starts x (Some c) cs = Suc (count_starts x (Some b) rest)"
        by auto
      with None z Some r show ?thesis by (simp del: match_here.simps)
    qed
  qed
qed

lemma length_match_all_sign:
  "length (match_all (sign_rx x) prev s) = count_starts x prev s"
proof (induction s arbitrary: prev rule: length_induct)
  case (1 s)
  show ?case
  proof (cases "exec_from (sign_rx x) prev s")
    case None
    with exec_from_sign[of x prev s] show ?thesis
      by (subst match_all.simps) simp
  next
    case (Some r)
    obtain sk caps rest where r: "r = (sk, caps, rest)" by (cases r)
    with exec_from_sign[of x prev s] Some obtain b where b: "b \<noteq> x" and s: "s = sk @ x # b # rest"
      and c: "count_starts x prev s = Suc (count_starts x (Some b) rest)"
      by auto
    have m: "take (length (drop (length sk) s) - length rest) (drop (length sk) s) = [x, b]"
      by (simp add: s)
    have ms: "match_all (sign_rx x) prev s = [x, b] # match_all (sign_rx x) (Some b) rest"
      by (subst match_all.simps, simp only: Some r option.case prod.case Let_def m, simp)
    have "length rest < length s" by (simp add: s)
    with 1 have "length (match_all (sign_rx x) (Some b) rest) = count_starts x (Some b) rest"
      by blast
    then show ?thesis
      by (simp add: ms c)
  qed
qed

lemma single_sign_simps:
  "single_sign x [] = False"
  "single_sign x (a # t) = (a = x \<and> (case t of [] \<Rightarrow> True | b # _ \<Rightarrow> b \<noteq> x))"
  by (simp_all add: single_sign_def)

lemma split_lines_nonempty: "split_lines s \<noteq> []"
  by (induction s) (auto split: list.splits)

lemma hd_split_lines:
  "cs \<noteq> [] \<Longrightarrow> x \<noteq> 0x0A \<Longrightarrow>
     (case hd (split_lines cs) of [] \<Rightarrow> True | b # _ \<Rightarrow> b \<noteq> x) = (hd cs \<noteq> x)"
  using split_lines_nonempty by (cases cs) (auto split: list.splits)

lemma count_starts_lines:
  assumes "list_all (\<lambda>c. line_terminator c \<longrightarrow> c = 0x0A) s" "s = [] \<or> last s = 0x0A" "x \<noteq> 0x0A"
  shows "count_starts x prev s =
     (if at_bol prev \<and> single_sign x (hd (split_lines s)) then 1 else 0)
       + length (filter (single_sign x) (tl (split_lines s)))"
  using assms
proof (induction s arbitrary: prev)
  case Nil
  then show ?case by (simp add: single_sign_simps)
next
  case (Cons c cs)
  show ?case
  proof (cases "cs = []")
    case True
    with Cons.prems have "c = 0x0A" by simp
    with True Cons.prems show ?thesis by (simp add: single_sign_simps)
  next
    case False
    with Cons.prems have l: "last cs = 0x0A" and a: "list_all (\<lambda>c. line_terminator c \<longrightarrow> c = 0x0A) cs"
      and ct: "line_terminator c \<longrightarrow> c = 0x0A"
      by simp_all
    note IH = Cons.IH[OF a _ Cons.prems(3), of "Some c"]
    obtain l ls where sp: "split_lines cs = l # ls"
      using split_lines_nonempty[of cs] by (cases "split_lines cs") auto
    have IH': "count_starts x (Some c) cs =
       (if line_terminator c \<and> single_sign x l then 1 else 0) + length (filter (single_sign x) ls)"
      using IH l sp by (simp add: at_bol_def)
    show ?thesis
    proof (cases "c = 0x0A")
      case True
      then have "line_terminator c" by (simp add: line_terminator_def)
      with True IH' sp Cons.prems(3) show ?thesis by (simp add: single_sign_simps)
    next
      case F: False
      with ct have nl: "\<not> line_terminator c" by blast
      have "(case l of [] \<Rightarrow> True | b # _ \<Rightarrow> b \<noteq> x) = (hd cs \<noteq> x)"
        using hd_split_lines[OF False Cons.prems(3)] sp by simp
      then have "single_sign x (c # l) = (c = x \<and> hd cs \<noteq> x)"
        by (simp add: single_sign_simps)
      with F nl IH' sp False show ?thesis by simp
    qed
  qed
qed

lemma count_starts_count_lines:
  assumes "lf_terminated s" "x \<noteq> 0x0A"
  shows "count_starts x None s = count_lines x s"
proof -
  from assms have "count_starts x None s =
     (if at_bol None \<and> single_sign x (hd (split_lines s)) then 1 else 0)
       + length (filter (single_sign x) (tl (split_lines s)))"
    by (intro count_starts_lines) (simp_all add: lf_terminated_def)
  moreover obtain l ls where "split_lines s = l # ls"
    using split_lines_nonempty[of s] by (cases "split_lines s") auto
  ultimately show ?thesis by (simp add: count_lines_def at_bol_def)
qed

lemma sign_not_lf: "chr CHR ''+'' \<noteq> 0x0A" "chr CHR ''-'' \<noteq> 0x0A"
  by (simp_all add: chr_def)

lemma gitlab_counts:
  "additions (gitlab_file_change c) =
     (case diff c of None \<Rightarrow> 0 | Some d \<Rightarrow> count_starts (chr CHR ''+'') None d)"
  "deletions (gitlab_file_change c) =
     (case diff c of None \<Rightarrow> 0 | Some d \<Rightarrow> count_starts (chr CHR ''-'') None d)"
  by (simp_all add: gitlab_file_change_def count_matches_def additions_rx_def deletions_rx_def
        length_match_all_sign split: option.splits)

text \<open>
  Claim C5, as amended. For every file change the GitLab adapter produces from a raw
  diff text, \<open>additions\<close> is the number of line starts at which \<open>+\<close> is followed by one more
  code unit other than \<open>+\<close>, and \<open>deletions\<close> the same for \<open>-\<close>. When every line of the text
  ends with a line feed and the text has no other line terminator, these are the number
  of lines that begin with a single \<open>+\<close> (not \<open>++\<close>) and with a single \<open>-\<close> (not \<open>--\<close>).
\<close>

theorem gitlab_line_counts:
  "(diff c = Some d \<longrightarrow>
       additions (gitlab_file_change c) = count_starts (chr CHR ''+'') None d
     \<and> deletions (gitlab_file_change c) = count_starts (chr CHR ''-'') None d)
   \<and> (diff c = Some d \<and> lf_terminated d \<longrightarrow>
       additions (gitlab_file_change c) = count_lines (chr CHR ''+'') d
     \<and> deletions (gitlab_file_change c) = count_lines (chr CHR ''-'') d)"
  by (simp add: gitlab_counts count_starts_count_lines sign_not_lf)

text \<open>The scenario of the specification: the fragment yields one addition and one
  deletion.\<close>

theorem gitlab_line_counts_witness:
  "lf_terminated diff_fragment
   \<and> count_lines (chr CHR ''+'') diff_fragment = 1
   \<and> count_lines (chr CHR ''-'') diff_fragment = 1
   \<and> additions (gitlab_file_change (with_diff diff_fragment)) = 1
   \<and> deletions (gitlab_file_change (with_diff diff_fragment)) = 1"
proof -
  have t: "lf_terminated diff_fragment"
    by code_simp
  have a: "count_lines (chr CHR ''+'') diff_fragment = 1"
    by code_simp
  have d: "count_lines (chr CHR ''-'') diff_fragment = 1"
    by code_simp
  have "diff (with_diff diff_fragment) = Some diff_fragment"
    by (simp add: with_diff_def)
  with gitlab_line_counts[of "with_diff diff_fragment" diff_fragment] t a d
  show ?thesis by simp
qed

text \<open>
  Claim C5 as stated counts every line that begins with a single sign. A bare \<open>+\<close> or \<open>-\<close>
  that ends the text begins such a line, and the adapter does not count it: its
  expressions need one more code unit after the sign.
\<close>

theorem gitlab_line_counts_counterexample:
  "count_lines (chr CHR ''+'') (str ''+'') = 1
   \<and> additions (gitlab_file_change (with_diff (str ''+''))) = 0
   \<and> count_lines (chr CHR ''-'') (str ''x\<newline>-'') = 1
   \<and> deletions (gitlab_file_change (with_diff (str ''x\<newline>-''))) = 0"
  by code_simp


section \<open>escapeHtml\<close>

lemma replace_all_append:
  "replace_all c rep (a @ b) = replace_all c rep a @ replace_all c rep b"
  by (simp add: replace_all_def)

lemma escapeHtml_append: "escapeHtml (a @ b) = escapeHtml a @ escapeHtml b"
  by (simp add: escapeHtml_def replace_all_append)

lemma escapeHtml_Nil: "escapeHtml [] = []"
  by (simp add: escapeHtml_def replace_all_def)

lemma escapeHtml_single: "escapeHtml [c] = esc_char c"
  by (simp add: escapeHtml_def replace_all_def esc_char_def str_def chr_def)

lemma escapeHtml_Cons: "escapeHtml (c # s) = esc_char c @ escapeHtml s"
  using escapeHtml_append[of "[c]" s] by (simp add: escapeHtml_single)

lemma esc_char_no_markup: "x \<in> set (esc_char c) \<Longrightarrow> \<not> is_markup x"
  by (auto simp: esc_char_def is_markup_def str_def chr_def split: if_splits)

lemma escapeHtml_no_markup: "x \<in> set (escapeHtml s) \<Longrightarrow> \<not> is_markup x"
  by (induction s) (auto simp: escapeHtml_Nil escapeHtml_Cons dest: esc_char_no_markup)

lemma filter_markup_escapeHtml: "filter is_markup (escapeHtml s) = []"
  by (simp add: filter_empty_conv escapeHtml_no_markup)

lemma escapeHtml_plain: "list_all plain s \<Longrightarrow> escapeHtml s = s"
  by (induction s) (auto simp: escapeHtml_Nil escapeHtml_Cons esc_char_def plain_def is_markup_def)

lemma amps_ok_nth:
  "amps_ok t \<Longrightarrow> i < length t \<Longrightarrow> t ! i = chr CHR ''&'' \<Longrightarrow> entity_at (drop i t)"
proof (induction t arbitrary: i)
  case Nil
  then show ?case by simp
next
  case (Cons c cs)
  then show ?case by (cases i) auto
qed

lemma amps_ok_esc_char: "amps_ok t \<Longrightarrow> amps_ok (esc_char c @ t)"
  by (auto simp: esc_char_def entity_at_def str_def chr_def)

lemma amps_ok_escapeHtml: "amps_ok (escapeHtml s)"
  by (induction s) (simp_all add: escapeHtml_Nil escapeHtml_Cons amps_ok_esc_char)

lemma escapeHtml_entities:
  "i < length (escapeHtml s) \<Longrightarrow> escapeHtml s ! i = chr CHR ''&'' \<Longrightarrow> entity_at (drop i (escapeHtml s))"
  using amps_ok_escapeHtml by (rule amps_ok_nth)


section \<open>The message of the Telegram channel\<close>

lemma forEach_issue_acc: "forEach_issue num msg k xs = msg @ forEach_issue num [] k xs"
proof (induction xs arbitrary: msg k)
  case Nil
  then show ?case by simp
next
  case (Cons x xs)
  have "forEach_issue num (msg @ issue_entry num k x) (Suc k) xs = (msg @ issue_entry num k x) @ forEach_issue num [] (Suc k) xs"
    by (rule Cons.IH)
  moreover have "forEach_issue num (issue_entry num k x) (Suc k) xs = issue_entry num k x @ forEach_issue num [] (Suc k) xs"
    by (rule Cons.IH)
  ultimately show ?case by simp
qed

lemma forEach_issue_Cons:
  "forEach_issue num [] k (x # xs) = issue_entry num k x @ forEach_issue num [] (Suc k) xs"
  using forEach_issue_acc[where msg = "issue_entry num k x" and k = "Suc k" and xs = xs and num = num] by simp

lemma forEach_issue_append:
  "forEach_issue num (a @ b) k xs = a @ forEach_issue num b k xs"
  using forEach_issue_acc[where msg = "a @ b" and k = k and xs = xs and num = num]
    forEach_issue_acc[where msg = b and k = k and xs = xs and num = num] by simp

lemma forEach_issue_str:
  "forEach_issue num (str t) k xs = str t @ forEach_issue num [] k xs"
  by (rule forEach_issue_acc)

lemma message_parts:
  "buildTelegramMessage num data = message_head num data @ issues_block num (issues data) @ message_tail data"
  unfolding buildTelegramMessage_def Let_def message_head_def issues_block_def message_tail_def
  by (simp add: forEach_issue_append forEach_issue_str)

lemma sub_trans: "sublist x y \<Longrightarrow> sublist y z \<Longrightarrow> sublist x z"
  unfolding sublist_def by (metis append.assoc)

lemma sub_left: "sublist x y \<Longrightarrow> sublist x (p @ y)"
  by (rule sub_trans[where y = y]) simp_all

lemma sub_right: "sublist x y \<Longrightarrow> sublist x (y @ q)"
  by (rule sub_trans[where y = y]) simp_all

lemma sub_head: "sublist x (message_head num d) \<Longrightarrow> sublist x (buildTelegramMessage num d)"
  unfolding message_parts by (rule sub_right)

lemma sub_block: "sublist x (issues_block num (issues d)) \<Longrightarrow> sublist x (buildTelegramMessage num d)"
  unfolding message_parts by (rule sub_left, rule sub_right)

lemma sub_tail: "sublist x (message_tail d) \<Longrightarrow> sublist x (buildTelegramMessage num d)"
  unfolding message_parts by (rule sub_left, rule sub_left)

lemma issue_entry_parts:
  "issue_entry num k x =
     decimal (k + 1) @ str ''. '' @ getSeverityEmoji (severity_text (severity x))
     @ (str '' <code>'' @ escapeHtml (file x) @ str '':'' @ num (line x) @ str ''</code>\<newline>'')
     @ (str ''   '' @ escapeHtml (shown_message (message x)) @ str ''\<newline>'')"
  by (simp add: issue_entry_def shown_message_def Let_def)

lemma entry_in_forEach:
  "i < length xs \<Longrightarrow> sublist (issue_entry num (k + i) (xs ! i)) (forEach_issue num [] k xs)"
proof (induction xs arbitrary: i k)
  case Nil
  then show ?case by simp
next
  case (Cons x xs)
  show ?case
  proof (cases i)
    case 0
    then show ?thesis by (simp add: forEach_issue_Cons del: forEach_issue.simps)
  next
    case (Suc j)
    with Cons.prems have "j < length xs" by simp
    from Cons.IH[OF this, where k = "Suc k"] Suc show ?thesis
      by (simp add: forEach_issue_Cons sub_left del: forEach_issue.simps)
  qed
qed

lemma entry_in_block:
  assumes "i < length xs" "i < 5"
  shows "sublist (issue_entry num i (xs ! i)) (issues_block num xs)"
proof -
  from assms have ne: "xs \<noteq> []" and i: "i < length (take 5 xs)" by auto
  from entry_in_forEach[OF i, where k = 0 and num = num] assms
  have e: "sublist (issue_entry num i (xs ! i)) (forEach_issue num [] 0 (take 5 xs))" by simp
  define pre where "pre = magnifier @ str '' <b>Issues Found:</b>\<newline>''
        @ bullet @ str '' '' @ red_circle @ str '' Errors: ''
        @ decimal (length (filter (\<lambda>i. severity i = SevError) xs)) @ str ''\<newline>''
        @ bullet @ str '' '' @ yellow_circle @ str '' Warnings: ''
        @ decimal (length (filter (\<lambda>i. severity i = SevWarning) xs)) @ str ''\<newline>''
        @ bullet @ str '' '' @ blue_circle @ str '' Info: ''
        @ decimal (length (filter (\<lambda>i. severity i = SevInfo) xs)) @ str ''\<newline>\<newline>''
        @ clipboard @ str '' <b>Top Issues:</b>\<newline>''"
  define post where "post = (if length xs > 5
           then str ''\<newline><i>... and '' @ decimal (length xs - 5) @ str '' more issues</i>\<newline>''
           else [])"
  have "issues_block num xs = pre @ forEach_issue num [] 0 (take 5 xs) @ post"
    using ne by (simp add: issues_block_def pre_def post_def)
  with e show ?thesis by (simp add: sub_left sub_right)
qed

lemma more_in_block:
  assumes "length xs > 5"
  shows "suffix (str ''\<newline><i>... and '' @ decimal (length xs - 5) @ str '' more issues</i>\<newline>'')
           (issues_block num xs)"
proof -
  from assms have "xs \<noteq> []" by auto
  with assms show ?thesis
    unfolding issues_block_def suffix_def by (simp del: append_assoc add: append_assoc[symmetric])
qed

lemma count_by_severity:
  "length (filter (\<lambda>i. severity i = sv) xs) = length (filter (\<lambda>v. v = sv) (map severity xs))"
  by (simp add: filter_map comp_def)

lemma issues_block_cong:
  assumes "take 5 xs = take 5 ys" "map severity xs = map severity ys"
  shows "issues_block num xs = issues_block num ys"
proof -
  from assms(2) have l: "length xs = length ys" by (metis length_map)
  then have e: "(xs = []) = (ys = [])" by auto
  show ?thesis
    unfolding issues_block_def count_by_severity assms l e ..
qed

lemma filter_markup_entry:
  "filter is_markup (issue_entry num k (blank_issue x)) = filter is_markup (issue_entry num k x)"
  by (simp add: issue_entry_parts blank_issue_def filter_markup_escapeHtml escapeHtml_Nil shown_message_def)

lemma filter_markup_forEach:
  "filter is_markup (forEach_issue num [] k (map blank_issue xs)) = filter is_markup (forEach_issue num [] k xs)"
  by (induction xs arbitrary: k) (simp_all add: forEach_issue_Cons filter_markup_entry del: forEach_issue.simps(2))

lemma blank_issue_severity: "map severity (map blank_issue xs) = map severity xs"
  by (simp add: blank_issue_def)

lemma filter_markup_block:
  "filter is_markup (issues_block num (map blank_issue xs)) = filter is_markup (issues_block num xs)"
  unfolding issues_block_def count_by_severity blank_issue_severity
  by (simp add: take_map filter_markup_forEach)

lemma filter_markup_head:
  "filter is_markup (message_head num (blank_texts d)) = filter is_markup (message_head num d)"
  by (simp add: message_head_def blank_texts_def filter_markup_escapeHtml escapeHtml_Nil)

lemma filter_markup_tail:
  "filter is_markup (message_tail (blank_texts d)) = filter is_markup (message_tail d)"
  by (simp add: message_tail_def blank_texts_def filter_markup_escapeHtml escapeHtml_Nil)

lemma filter_markup_message:
  "filter is_markup (buildTelegramMessage num (blank_texts d)) = filter is_markup (buildTelegramMessage num d)"
proof -
  have "issues (blank_texts d) = map blank_issue (issues d)" by (simp add: blank_texts_def)
  then show ?thesis
    by (simp add: message_parts filter_markup_head filter_markup_block filter_markup_tail)
qed

lemma pre_step: "prefix x y \<Longrightarrow> prefix (a @ x) (a @ y)"
  by simp

lemma pre_last: "prefix a (a @ r)"
  by simp

lemma suf_left: "suffix x y \<Longrightarrow> suffix x (p @ y)"
  by (simp add: suffix_appendI)

lemma title_in_head:
  "sublist (memo @ str '' <b>MR:</b> '' @ escapeHtml (mrTitle d) @ str ''\<newline>'') (message_head num d)"
  unfolding message_head_def
  by (fast intro: sub_left prefix_imp_sublist pre_step pre_last)

lemma author_in_head:
  "sublist (bust @ str '' <b>Author:</b> '' @ escapeHtml (author d) @ str ''\<newline>'') (message_head num d)"
  unfolding message_head_def
  by (fast intro: sub_left prefix_imp_sublist pre_step pre_last)

lemma review_time_in_head:
  "suffix (bullet @ str '' Review Time: '' @ escapeHtml (reviewTime d) @ str ''\<newline>\<newline>'')
     (message_head num d)"
  unfolding message_head_def
  by (fast intro: suf_left suffix_order.refl)

lemma summary_in_tail:
  "sublist (str '' <b>Summary:</b>\<newline>'' @ escapeHtml (summary d) @ str ''\<newline>\<newline>'')
     (message_tail d)"
  unfolding message_tail_def
  by (fast intro: sub_left prefix_imp_sublist pre_step pre_last)

lemma url_in_tail:
  "suffix (str '' <a href='' @ dquote @ escapeHtml (mrUrl d) @ dquote @ str ''>View Merge Request</a>'')
     (message_tail d)"
  unfolding message_tail_def
  by (fast intro: suf_left suffix_order.refl)

lemma file_in_entry:
  "sublist (str '' <code>'' @ escapeHtml (file x) @ str '':'' @ num (line x)
              @ str ''</code>\<newline>'') (issue_entry num k x)"
  unfolding issue_entry_parts
  by (fast intro: sub_left sublist_append_rightI)

lemma text_in_entry:
  "suffix (str ''   '' @ escapeHtml (shown_message (message x)) @ str ''\<newline>'') (issue_entry num k x)"
  unfolding issue_entry_parts
  by (fast intro: suf_left suffix_order.refl)

lemma status_emoji_prefix:
  "prefix (getStatusEmoji (status_text (status d))) (buildTelegramMessage num d)"
  unfolding message_parts message_head_def by simp

lemma status_emoji_cases:
  "getStatusEmoji (status_text st) =
     (case st of Passed \<Rightarrow> check_mark | Warnings \<Rightarrow> warning_sign | Failed \<Rightarrow> cross_mark)"
  by (cases st) (simp_all add: getStatusEmoji_def status_text_def str_def)

lemma entry_in_message:
  "i < length (issues d) \<Longrightarrow> i < 5 \<Longrightarrow>
     sublist (issue_entry num i (issues d ! i)) (buildTelegramMessage num d)"
  by (rule sub_block) (rule entry_in_block)

lemma forEach_issue_cong:
  "length xs = length ys \<Longrightarrow>
   (\<And>j. j < length xs \<Longrightarrow> issue_entry num (k + j) (xs ! j) = issue_entry num (k + j) (ys ! j)) \<Longrightarrow>
   forEach_issue num [] k xs = forEach_issue num [] k ys"
proof (induction xs arbitrary: ys k)
  case Nil
  then show ?case by simp
next
  case (Cons x xs)
  then obtain y ys' where ys: "ys = y # ys'" by (cases ys) auto
  from Cons.prems(2)[of 0] ys have h: "issue_entry num k x = issue_entry num k y" by simp
  have "forEach_issue num [] (Suc k) xs = forEach_issue num [] (Suc k) ys'"
  proof (rule Cons.IH)
    show "length xs = length ys'" using Cons.prems(1) ys by simp
    fix j assume "j < length xs"
    then show "issue_entry num (Suc k + j) (xs ! j) = issue_entry num (Suc k + j) (ys' ! j)"
      using Cons.prems(2)[of "Suc j"] ys by simp
  qed
  with h ys show ?case by (simp add: forEach_issue_Cons del: forEach_issue.simps)
qed

lemma issue_entry_long:
  assumes "80 < length (message x)" "80 < length m'" "take 80 m' = take 80 (message x)"
  shows "issue_entry num k (x\<lparr>message := m'\<rparr>) = issue_entry num k x"
  using assms by (simp add: issue_entry_parts shown_message_def)

lemma issues_block_long:
  assumes "i < length xs" "80 < length (message (xs ! i))" "80 < length m'"
    "take 80 m' = take 80 (message (xs ! i))"
  shows "issues_block num (xs[i := (xs ! i)\<lparr>message := m'\<rparr>]) = issues_block num xs"
proof -
  let ?ys = "xs[i := (xs ! i)\<lparr>message := m'\<rparr>]"
  have sv: "map severity ?ys = map severity xs"
    by (simp add: map_update list_update_same_conv assms(1))
  have f: "forEach_issue num [] 0 (take 5 ?ys) = forEach_issue num [] 0 (take 5 xs)"
  proof (rule forEach_issue_cong)
    show "length (take 5 ?ys) = length (take 5 xs)" by simp
    fix j assume j: "j < length (take 5 ?ys)"
    show "issue_entry num (0 + j) (take 5 ?ys ! j) = issue_entry num (0 + j) (take 5 xs ! j)"
    proof (cases "j = i")
      case True
      with j assms show ?thesis by (simp add: issue_entry_long)
    next
      case False
      with j show ?thesis by simp
    qed
  qed
  show ?thesis
    unfolding issues_block_def count_by_severity sv f by simp
qed

lemma shown_message_plain:
  "list_all plain m \<Longrightarrow> escapeHtml (shown_message m) = shown_message m"
proof -
  assume a: "list_all plain m"
  have "list_all plain (str ''...'')" by (simp add: plain_def is_markup_def str_def chr_def)
  with a have "list_all plain (shown_message m)"
    by (auto simp: shown_message_def list_all_iff dest: in_set_takeD)
  then show ?thesis by (rule escapeHtml_plain)
qed

lemma example_issues:
  "issues example_request =
     [example_issue (str ''a.ts'') SevError long_message,
      example_issue (str ''b.ts'') SevWarning (str ''x < y''),
      example_issue (str ''c.ts'') SevInfo (str ''third''),
      example_issue (str ''d.ts'') SevInfo (str ''fourth''),
      example_issue (str ''e.ts'') SevInfo (str ''fifth''),
      example_issue (str ''f.ts'') SevError (str ''sixth'')]"
  by (simp add: example_request_def)

lemma example_issue_simps:
  "file (example_issue f sv m) = f" "line (example_issue f sv m) = 7"
  "severity (example_issue f sv m) = sv" "message (example_issue f sv m) = m"
  by (simp_all add: example_issue_def)

lemma length_long_message: "length long_message = 86"
  by (simp add: long_message_def str_def)

lemma take_long_message: "take 80 long_message = replicate 80 (chr CHR ''a'')"
  by (simp add: long_message_def)

text \<open>
  Claim C6. For every payload the message starts with the emoji of its status (the check
  mark for passed, the warning sign for warnings, the cross mark for failed). Each of
  the first five issues has its two lines in the message: its position, the emoji of its
  severity, its file and line, and its text (shortened to 80 characters). The issues
  after the fifth reach the message through their number and their severities only, so
  that changing anything else in them leaves the message as it is; and with more than
  five issues the message holds the line that gives the number of the remaining ones.
\<close>

theorem telegram_message_issues:
  "prefix (getStatusEmoji (status_text (status d))) (buildTelegramMessage num d)
   \<and> getStatusEmoji (status_text (status d)) =
       (case status d of Passed \<Rightarrow> check_mark | Warnings \<Rightarrow> warning_sign | Failed \<Rightarrow> cross_mark)
   \<and> (\<forall>i < length (issues d). i < 5 \<longrightarrow>
         sublist (decimal (i + 1) @ str ''. ''
                    @ getSeverityEmoji (severity_text (severity (issues d ! i)))
                    @ str '' <code>'' @ escapeHtml (file (issues d ! i)) @ str '':''
                    @ num (line (issues d ! i)) @ str ''</code>\<newline>''
                    @ str ''   '' @ escapeHtml (shown_message (message (issues d ! i)))
                    @ str ''\<newline>'')
           (buildTelegramMessage num d))
   \<and> (take 5 xs = take 5 (issues d) \<and> map severity xs = map severity (issues d) \<longrightarrow>
         buildTelegramMessage num (d\<lparr>issues := xs\<rparr>) = buildTelegramMessage num d)
   \<and> (length (issues d) > 5 \<longrightarrow>
         sublist (str ''\<newline><i>... and '' @ decimal (length (issues d) - 5)
                    @ str '' more issues</i>\<newline>'') (buildTelegramMessage num d))"
proof (intro conjI)
  show "prefix (getStatusEmoji (status_text (status d))) (buildTelegramMessage num d)"
    by (rule status_emoji_prefix)
  show "getStatusEmoji (status_text (status d)) =
       (case status d of Passed \<Rightarrow> check_mark | Warnings \<Rightarrow> warning_sign | Failed \<Rightarrow> cross_mark)"
    by (rule status_emoji_cases)
  show "\<forall>i < length (issues d). i < 5 \<longrightarrow>
         sublist (decimal (i + 1) @ str ''. ''
                    @ getSeverityEmoji (severity_text (severity (issues d ! i)))
                    @ str '' <code>'' @ escapeHtml (file (issues d ! i)) @ str '':''
                    @ num (line (issues d ! i)) @ str ''</code>\<newline>''
                    @ str ''   '' @ escapeHtml (shown_message (message (issues d ! i)))
                    @ str ''\<newline>'')
           (buildTelegramMessage num d)"
  proof (intro allI impI)
    fix i assume "i < length (issues d)" "i < 5"
    then have "sublist (issue_entry num i (issues d ! i)) (buildTelegramMessage num d)"
      by (rule entry_in_message)
    then show "sublist (decimal (i + 1) @ str ''. ''
                    @ getSeverityEmoji (severity_text (severity (issues d ! i)))
                    @ str '' <code>'' @ escapeHtml (file (issues d ! i)) @ str '':''
                    @ num (line (issues d ! i)) @ str ''</code>\<newline>''
                    @ str ''   '' @ escapeHtml (shown_message (message (issues d ! i)))
                    @ str ''\<newline>'')
           (buildTelegramMessage num d)"
      unfolding issue_entry_parts by simp
  qed
  show "take 5 xs = take 5 (issues d) \<and> map severity xs = map severity (issues d) \<longrightarrow>
         buildTelegramMessage num (d\<lparr>issues := xs\<rparr>) = buildTelegramMessage num d"
  proof
    assume "take 5 xs = take 5 (issues d) \<and> map severity xs = map severity (issues d)"
    then have "issues_block num xs = issues_block num (issues d)" by (intro issues_block_cong) simp_all
    then show "buildTelegramMessage num (d\<lparr>issues := xs\<rparr>) = buildTelegramMessage num d"
      by (simp add: message_parts message_head_def message_tail_def)
  qed
  show "length (issues d) > 5 \<longrightarrow>
         sublist (str ''\<newline><i>... and '' @ decimal (length (issues d) - 5)
                    @ str '' more issues</i>\<newline>'') (buildTelegramMessage num d)"
    using more_in_block[where xs = "issues d"] by (auto intro: sub_block)
qed

text \<open>The first and the fifth issue of the example payload, with their texts, and the
  line for the sixth.\<close>

theorem telegram_message_issues_witness:
  "prefix warning_sign (buildTelegramMessage print_integer example_request)
   \<and> sublist (str ''1. '' @ red_circle @ str '' <code>a.ts:7</code>\<newline>   ''
                @ replicate 80 (chr CHR ''a'') @ str ''...\<newline>'')
        (buildTelegramMessage print_integer example_request)
   \<and> sublist (str ''5. '' @ blue_circle @ str '' <code>e.ts:7</code>\<newline>   fifth\<newline>'')
        (buildTelegramMessage print_integer example_request)
   \<and> buildTelegramMessage print_integer
        (example_request\<lparr>issues := take 5 (issues example_request)
                                     @ [example_issue (str ''other.ts'') SevError (str ''other text'')]\<rparr>)
       = buildTelegramMessage print_integer example_request
   \<and> sublist (str ''\<newline><i>... and 1 more issues</i>\<newline>'')
        (buildTelegramMessage print_integer example_request)"
proof -
  let ?xs = "take 5 (issues example_request)
               @ [example_issue (str ''other.ts'') SevError (str ''other text'')]"
  note t = telegram_message_issues[where d = example_request and xs = ?xs and num = print_integer]
  have st: "status example_request = Warnings" by (simp add: example_request_def)
  have len: "length (issues example_request) = 6" by (simp add: example_issues)
  have tk: "take 5 ?xs = take 5 (issues example_request)" by (simp add: example_issues)
  have sv: "map severity ?xs = map severity (issues example_request)"
    by (simp add: example_issues example_issue_simps)
  have more: "str ''\<newline><i>... and '' @ decimal (6 - 5) @ str '' more issues</i>\<newline>''
                = str ''\<newline><i>... and 1 more issues</i>\<newline>''"
    by code_simp
  have first: "decimal (0 + 1) @ str ''. ''
                    @ getSeverityEmoji (severity_text (severity (issues example_request ! 0)))
                    @ str '' <code>'' @ escapeHtml (file (issues example_request ! 0)) @ str '':''
                    @ print_integer (line (issues example_request ! 0)) @ str ''</code>\<newline>''
                    @ str ''   '' @ escapeHtml (shown_message (message (issues example_request ! 0)))
                    @ str ''\<newline>''
                = str ''1. '' @ red_circle @ str '' <code>a.ts:7</code>\<newline>   ''
                    @ replicate 80 (chr CHR ''a'') @ str ''...\<newline>''"
    unfolding example_issues by code_simp
  have fifth: "decimal (4 + 1) @ str ''. ''
                    @ getSeverityEmoji (severity_text (severity (issues example_request ! 4)))
                    @ str '' <code>'' @ escapeHtml (file (issues example_request ! 4)) @ str '':''
                    @ print_integer (line (issues example_request ! 4)) @ str ''</code>\<newline>''
                    @ str ''   '' @ escapeHtml (shown_message (message (issues example_request ! 4)))
                    @ str ''\<newline>''
                = str ''5. '' @ blue_circle @ str '' <code>e.ts:7</code>\<newline>   fifth\<newline>''"
    unfolding example_issues by code_simp
  from t st have A: "prefix warning_sign (buildTelegramMessage print_integer example_request)"
    by (elim conjE) simp
  from t len have "sublist (decimal (0 + 1) @ str ''. ''
                    @ getSeverityEmoji (severity_text (severity (issues example_request ! 0)))
                    @ str '' <code>'' @ escapeHtml (file (issues example_request ! 0)) @ str '':''
                    @ print_integer (line (issues example_request ! 0)) @ str ''</code>\<newline>''
                    @ str ''   '' @ escapeHtml (shown_message (message (issues example_request ! 0)))
                    @ str ''\<newline>'')
           (buildTelegramMessage print_integer example_request)"
    by (elim conjE) (erule allE[where x = 0], simp)
  then have B: "sublist (str ''1. '' @ red_circle @ str '' <code>a.ts:7</code>\<newline>   ''
                @ replicate 80 (chr CHR ''a'') @ str ''...\<newline>'')
        (buildTelegramMessage print_integer example_request)"
    unfolding first .
  from t len have "sublist (decimal (4 + 1) @ str ''. ''
                    @ getSeverityEmoji (severity_text (severity (issues example_request ! 4)))
                    @ str '' <code>'' @ escapeHtml (file (issues example_request ! 4)) @ str '':''
                    @ print_integer (line (issues example_request ! 4)) @ str ''</code>\<newline>''
                    @ str ''   '' @ escapeHtml (shown_message (message (issues example_request ! 4)))
                    @ str ''\<newline>'')
           (buildTelegramMessage print_integer example_request)"
    by (elim conjE) (erule allE[where x = 4], simp)
  then have C: "sublist (str ''5. '' @ blue_circle @ str '' <code>e.ts:7</code>\<newline>   fifth\<newline>'')
        (buildTelegramMessage print_integer example_request)"
    unfolding fifth .
  from t tk sv have D: "buildTelegramMessage print_integer (example_request\<lparr>issues := ?xs\<rparr>)
                          = buildTelegramMessage print_integer example_request"
    by blast
  from t len more have E: "sublist (str ''\<newline><i>... and 1 more issues</i>\<newline>'')
                             (buildTelegramMessage print_integer example_request)"
    by simp
  from A B C D E show ?thesis by simp
qed

text \<open>
  Claim C8. The result of \<open>escapeHtml\<close> has no \<open><\<close>, \<open>>\<close> or double quote, and every \<open>&\<close> in it
  starts one of \<open>&amp;\<close>, \<open>&lt;\<close>, \<open>&gt;\<close>, \<open>&quot;\<close>. The message embeds the title, the author,
  the review time, the file and the (shortened) message of each of the first five issues,
  the summary and the URL in their escaped form, each at its place, and so none of these
  fields contributes a \<open><\<close>, \<open>>\<close> or double quote: the markup characters of the message are those
  of the message built from the payload with all these fields emptied.
\<close>

theorem escapeHtml_safe:
  "(\<forall>x \<in> set (escapeHtml s). \<not> is_markup x)
   \<and> (\<forall>i < length (escapeHtml s). escapeHtml s ! i = chr CHR ''&'' \<longrightarrow>
         entity_at (drop i (escapeHtml s)))
   \<and> sublist (memo @ str '' <b>MR:</b> '' @ escapeHtml (mrTitle d) @ str ''\<newline>'')
        (buildTelegramMessage num d)
   \<and> sublist (bust @ str '' <b>Author:</b> '' @ escapeHtml (author d) @ str ''\<newline>'')
        (buildTelegramMessage num d)
   \<and> sublist (bullet @ str '' Review Time: '' @ escapeHtml (reviewTime d) @ str ''\<newline>\<newline>'')
        (buildTelegramMessage num d)
   \<and> (\<forall>i < length (issues d). i < 5 \<longrightarrow>
         sublist (str '' <code>'' @ escapeHtml (file (issues d ! i)) @ str '':''
                    @ num (line (issues d ! i)) @ str ''</code>\<newline>'')
           (buildTelegramMessage num d)
       \<and> sublist (str ''   '' @ escapeHtml (shown_message (message (issues d ! i))) @ str ''\<newline>'')
           (buildTelegramMessage num d))
   \<and> sublist (str '' <b>Summary:</b>\<newline>'' @ escapeHtml (summary d) @ str ''\<newline>\<newline>'')
        (buildTelegramMessage num d)
   \<and> suffix (str '' <a href='' @ dquote @ escapeHtml (mrUrl d) @ dquote @ str ''>View Merge Request</a>'')
        (buildTelegramMessage num d)
   \<and> filter is_markup (buildTelegramMessage num d) = filter is_markup (buildTelegramMessage num (blank_texts d))"
proof (intro conjI)
  show "\<forall>x \<in> set (escapeHtml s). \<not> is_markup x"
    using escapeHtml_no_markup by blast
  show "\<forall>i < length (escapeHtml s). escapeHtml s ! i = chr CHR ''&'' \<longrightarrow>
         entity_at (drop i (escapeHtml s))"
    using escapeHtml_entities by blast
  show "sublist (memo @ str '' <b>MR:</b> '' @ escapeHtml (mrTitle d) @ str ''\<newline>'')
        (buildTelegramMessage num d)"
    by (rule sub_head) (rule title_in_head)
  show "sublist (bust @ str '' <b>Author:</b> '' @ escapeHtml (author d) @ str ''\<newline>'')
        (buildTelegramMessage num d)"
    by (rule sub_head) (rule author_in_head)
  show "sublist (bullet @ str '' Review Time: '' @ escapeHtml (reviewTime d) @ str ''\<newline>\<newline>'')
        (buildTelegramMessage num d)"
    by (rule sub_head) (rule suffix_imp_sublist, rule review_time_in_head)
  show "\<forall>i < length (issues d). i < 5 \<longrightarrow>
         sublist (str '' <code>'' @ escapeHtml (file (issues d ! i)) @ str '':''
                    @ num (line (issues d ! i)) @ str ''</code>\<newline>'')
           (buildTelegramMessage num d)
       \<and> sublist (str ''   '' @ escapeHtml (shown_message (message (issues d ! i))) @ str ''\<newline>'')
           (buildTelegramMessage num d)"
  proof (intro allI impI)
    fix i assume i: "i < length (issues d)" "i < 5"
    note e = entry_in_message[OF i]
    show "sublist (str '' <code>'' @ escapeHtml (file (issues d ! i)) @ str '':''
                    @ num (line (issues d ! i)) @ str ''</code>\<newline>'')
           (buildTelegramMessage num d)
       \<and> sublist (str ''   '' @ escapeHtml (shown_message (message (issues d ! i))) @ str ''\<newline>'')
           (buildTelegramMessage num d)"
      using sub_trans[OF file_in_entry e] sub_trans[OF suffix_imp_sublist[OF text_in_entry] e]
      by blast
  qed
  show "sublist (str '' <b>Summary:</b>\<newline>'' @ escapeHtml (summary d) @ str ''\<newline>\<newline>'')
        (buildTelegramMessage num d)"
    by (rule sub_tail) (rule summary_in_tail)
  show "suffix (str '' <a href='' @ dquote @ escapeHtml (mrUrl d) @ dquote @ str ''>View Merge Request</a>'')
        (buildTelegramMessage num d)"
    unfolding message_parts by (intro suf_left url_in_tail)
  show "filter is_markup (buildTelegramMessage num d) = filter is_markup (buildTelegramMessage num (blank_texts d))"
    by (rule filter_markup_message[symmetric])
qed

theorem escapeHtml_safe_witness:
  "escapeHtml (str ''<&'') = str ''&lt;&amp;''
   \<and> \<not> is_markup (escapeHtml (str ''<&'') ! 1)
   \<and> entity_at (drop 4 (escapeHtml (str ''<&'')))
   \<and> sublist (str '' <code>b.ts:7</code>\<newline>'') (buildTelegramMessage print_integer example_request)
   \<and> sublist (str ''   x &lt; y\<newline>'') (buildTelegramMessage print_integer example_request)
   \<and> filter is_markup (buildTelegramMessage print_integer example_request)
       = filter is_markup (buildTelegramMessage print_integer (blank_texts example_request))"
proof -
  note t = escapeHtml_safe[where s = "str ''<&''" and d = example_request and num = print_integer]
  have v: "escapeHtml (str ''<&'') = str ''&lt;&amp;''" by code_simp
  have len: "length (issues example_request) = 6" by (simp add: example_issues)
  have m: "1 < length (escapeHtml (str ''<&''))" "4 < length (escapeHtml (str ''<&''))"
    "escapeHtml (str ''<&'') ! 4 = chr CHR ''&''"
    unfolding v by (simp_all add: str_def chr_def)
  from t m have A: "\<not> is_markup (escapeHtml (str ''<&'') ! 1)" by (metis nth_mem)
  from t m have B: "entity_at (drop 4 (escapeHtml (str ''<&'')))" by blast
  have f: "str '' <code>'' @ escapeHtml (file (issues example_request ! 1)) @ str '':''
             @ print_integer (line (issues example_request ! 1)) @ str ''</code>\<newline>''
           = str '' <code>b.ts:7</code>\<newline>''"
    unfolding example_issues by code_simp
  have g: "str ''   '' @ escapeHtml (shown_message (message (issues example_request ! 1))) @ str ''\<newline>''
           = str ''   x &lt; y\<newline>''"
    unfolding example_issues by code_simp
  from t len have "sublist (str '' <code>'' @ escapeHtml (file (issues example_request ! 1)) @ str '':''
             @ print_integer (line (issues example_request ! 1)) @ str ''</code>\<newline>'')
           (buildTelegramMessage print_integer example_request)
    \<and> sublist (str ''   '' @ escapeHtml (shown_message (message (issues example_request ! 1))) @ str ''\<newline>'')
           (buildTelegramMessage print_integer example_request)"
    by simp
  then have C: "sublist (str '' <code>b.ts:7</code>\<newline>'') (buildTelegramMessage print_integer example_request)"
    and D: "sublist (str ''   x &lt; y\<newline>'') (buildTelegramMessage print_integer example_request)"
    unfolding f g by simp_all
  from t have E: "filter is_markup (buildTelegramMessage print_integer example_request)
       = filter is_markup (buildTelegramMessage print_integer (blank_texts example_request))"
    by blast
  from v A B C D E show ?thesis by blast
qed

text \<open>
  Claim C9. For an issue among the first five, the message holds, escaped for HTML as
  every text field is, the first 80 characters of its message text followed by \<open>...\<close> when
  the text is longer than 80 characters, and the whole text otherwise; a text without
  \<open>&\<close>, \<open><\<close>, \<open>>\<close> and double quote appears as it is. Nothing after the 80th character
  reaches the message: replacing a text longer than 80 characters by another one with
  the same first 80 characters leaves the message unchanged.
\<close>

theorem issue_message_truncated:
  "(i < length (issues d) \<and> i < 5 \<longrightarrow>
      sublist (str ''   ''
                 @ escapeHtml (if length (message (issues d ! i)) > 80
                               then take 80 (message (issues d ! i)) @ str ''...''
                               else message (issues d ! i))
                 @ str ''\<newline>'') (buildTelegramMessage num d))
   \<and> (i < length (issues d) \<and> i < 5 \<and> list_all plain (message (issues d ! i)) \<longrightarrow>
      sublist (str ''   ''
                 @ (if length (message (issues d ! i)) > 80
                    then take 80 (message (issues d ! i)) @ str ''...''
                    else message (issues d ! i))
                 @ str ''\<newline>'') (buildTelegramMessage num d))
   \<and> (i < length (issues d) \<and> 80 < length (message (issues d ! i)) \<and> 80 < length m'
        \<and> take 80 m' = take 80 (message (issues d ! i)) \<longrightarrow>
      buildTelegramMessage num (d\<lparr>issues := (issues d)[i := (issues d ! i)\<lparr>message := m'\<rparr>]\<rparr>)
        = buildTelegramMessage num d)"
proof (intro conjI impI)
  assume a: "i < length (issues d) \<and> i < 5"
  then have e: "sublist (issue_entry num i (issues d ! i)) (buildTelegramMessage num d)"
    by (simp add: entry_in_message)
  from sub_trans[OF suffix_imp_sublist[OF text_in_entry] e]
  show "sublist (str ''   ''
                 @ escapeHtml (if length (message (issues d ! i)) > 80
                               then take 80 (message (issues d ! i)) @ str ''...''
                               else message (issues d ! i))
                 @ str ''\<newline>'') (buildTelegramMessage num d)"
    unfolding shown_message_def .
next
  assume a: "i < length (issues d) \<and> i < 5 \<and> list_all plain (message (issues d ! i))"
  then have e: "sublist (issue_entry num i (issues d ! i)) (buildTelegramMessage num d)"
    by (simp add: entry_in_message)
  from sub_trans[OF suffix_imp_sublist[OF text_in_entry] e] a
  have "sublist (str ''   '' @ shown_message (message (issues d ! i)) @ str ''\<newline>'')
          (buildTelegramMessage num d)"
    by (simp add: shown_message_plain)
  then show "sublist (str ''   ''
                 @ (if length (message (issues d ! i)) > 80
                    then take 80 (message (issues d ! i)) @ str ''...''
                    else message (issues d ! i))
                 @ str ''\<newline>'') (buildTelegramMessage num d)"
    unfolding shown_message_def .
next
  assume a: "i < length (issues d) \<and> 80 < length (message (issues d ! i)) \<and> 80 < length m'
        \<and> take 80 m' = take 80 (message (issues d ! i))"
  then have "issues_block num ((issues d)[i := (issues d ! i)\<lparr>message := m'\<rparr>]) = issues_block num (issues d)"
    by (intro issues_block_long) simp_all
  then show "buildTelegramMessage num (d\<lparr>issues := (issues d)[i := (issues d ! i)\<lparr>message := m'\<rparr>]\<rparr>)
        = buildTelegramMessage num d"
    by (simp add: message_parts message_head_def message_tail_def)
qed

theorem issue_message_truncated_witness:
  "sublist (str ''   '' @ replicate 80 (chr CHR ''a'') @ str ''...'' @ str ''\<newline>'')
     (buildTelegramMessage print_integer example_request)
   \<and> sublist (str ''   third\<newline>'') (buildTelegramMessage print_integer example_request)
   \<and> buildTelegramMessage print_integer
        (example_request\<lparr>issues := (issues example_request)
            [0 := (issues example_request ! 0)\<lparr>message := replicate 80 (chr CHR ''a'') @ str ''other''\<rparr>]\<rparr>)
       = buildTelegramMessage print_integer example_request"
proof -
  note a = issue_message_truncated[where i = 0 and d = example_request and num = print_integer
      and m' = "replicate 80 (chr CHR ''a'') @ str ''other''"]
  note b = issue_message_truncated[where i = 2 and d = example_request and num = print_integer and m' = "[]"]
  have len: "length (issues example_request) = 6" by (simp add: example_issues)
  have m0: "message (issues example_request ! 0) = long_message"
    and m2: "message (issues example_request ! 2) = str ''third''"
    by (simp_all add: example_issues example_issue_simps)
  have e: "escapeHtml (replicate 80 (chr CHR ''a'') @ str ''...'') = replicate 80 (chr CHR ''a'') @ str ''...''"
    by (rule escapeHtml_plain) (simp add: plain_def is_markup_def str_def chr_def list_all_iff)
  have p: "list_all plain (str ''third'')" "length (str ''third'') = 5"
    by (simp_all add: plain_def is_markup_def str_def chr_def)
  have l: "80 < length (replicate 80 (chr CHR ''a'') @ str ''other'')"
    "take 80 (replicate 80 (chr CHR ''a'') @ str ''other'') = take 80 long_message"
    by (simp_all add: take_long_message str_def)
  from a len m0 have A: "sublist (str ''   '' @ replicate 80 (chr CHR ''a'') @ str ''...'' @ str ''\<newline>'')
     (buildTelegramMessage print_integer example_request)"
    by (simp add: length_long_message take_long_message e)
  have j: "str ''   '' @ str ''third'' @ str ''\<newline>'' = str ''   third\<newline>''"
    by (simp add: str_def)
  from b len m2 p have B: "sublist (str ''   third\<newline>'') (buildTelegramMessage print_integer example_request)"
    by (simp add: j)
  from a len m0 l have C: "buildTelegramMessage print_integer
        (example_request\<lparr>issues := (issues example_request)
            [0 := (issues example_request ! 0)\<lparr>message := replicate 80 (chr CHR ''a'') @ str ''other''\<rparr>]\<rparr>)
       = buildTelegramMessage print_integer example_request"
    by (simp add: length_long_message)
  from A B C show ?thesis by blast
qed


section \<open>The diagnostics of the notification function\<close>

lemma string_includes_sublist: "string_includes s t = sublist t s"
  by (induction s) (simp_all add: sublist_Cons_right)

text \<open>
  Claim C7. For a request other than the preflight: a bot token that is absent or empty
  gives the configuration error that names \<open>TELEGRAM_BOT_TOKEN\<close>; with a token, a chat id
  that is absent or empty gives the one that names \<open>TELEGRAM_CHAT_ID\<close>. When Telegram
  answers the call with a failure, the response is a 500 whose error text is the
  chat-id diagnostic for error 400 with a description that includes \<open>chat not found\<close>,
  the bot-token diagnostic for error 401, and the generic text with code and description
  in every other case only.
\<close>

theorem handler_diagnostics:
  "req_method \<noteq> str ''OPTIONS'' \<longrightarrow>
    ((token = None \<or> token = Some [] \<longrightarrow>
        serve_handler num integer_of req_method token chat req tg =
          \<lparr>http_status = 500, http_headers = json_headers,
           http_body = ConfigError (str ''TELEGRAM_BOT_TOKEN is not configured in Supabase secrets'')
                         (str ''Set it using: supabase secrets set TELEGRAM_BOT_TOKEN=your_bot_token'')\<rparr>)
   \<and> (token = Some t \<and> t \<noteq> [] \<and> (chat = None \<or> chat = Some []) \<longrightarrow>
        serve_handler num integer_of req_method token chat req tg =
          \<lparr>http_status = 500, http_headers = json_headers,
           http_body = ConfigError (str ''TELEGRAM_CHAT_ID is not configured in Supabase secrets'')
                         (str ''Set it using: supabase secrets set TELEGRAM_CHAT_ID=your_chat_id'')\<rparr>)
   \<and> (token = Some t \<and> t \<noteq> [] \<and> chat = Some c \<and> c \<noteq> [] \<and> req = Inr data
        \<and> tg (str ''https://api.telegram.org/bot'' @ t @ str ''/sendMessage'') c (buildTelegramMessage num data)
            = Reply False (Inr result) \<longrightarrow>
        http_status (serve_handler num integer_of req_method token chat req tg) = 500
      \<and> (code_is integer_of (error_code result) 400 \<and> description result = Some d
            \<and> string_includes d (str ''chat not found'') \<longrightarrow>
          http_body (serve_handler num integer_of req_method token chat req tg) =
            Failure (str ''Invalid TELEGRAM_CHAT_ID. The bot cannot access chat: '' @ c
                       @ str ''. Make sure to start the bot first by sending /start'')
                    (str ''Check the function logs for more details''))
      \<and> (code_is integer_of (error_code result) 401 \<longrightarrow>
          http_body (serve_handler num integer_of req_method token chat req tg) =
            Failure (str ''Invalid TELEGRAM_BOT_TOKEN. Please check your bot token.'')
                    (str ''Check the function logs for more details''))
      \<and> (\<not> code_is integer_of (error_code result) 401
            \<and> \<not> (code_is integer_of (error_code result) 400
                   \<and> (\<exists>d. description result = Some d \<and> string_includes d (str ''chat not found''))) \<longrightarrow>
          http_body (serve_handler num integer_of req_method token chat req tg) =
            Failure (str ''Telegram API error (''
                       @ (case error_code result of None \<Rightarrow> str ''undefined''
                          | Some n \<Rightarrow> num n)
                       @ str ''): '' @ error_msg num integer_of result)
                    (str ''Check the function logs for more details''))))"
  by (auto simp: serve_handler_def try_block_def missing_token_def missing_chat_id_def
        delivery_error_def code_is_def Let_def split: option.splits)

theorem handler_diagnostics_witness:
  "serve_handler print_integer Some (str ''POST'') None (Some (str ''-100'')) (Inr example_request)
       (telegram_answers (tg_error 401 ''Unauthorized'')) =
     \<lparr>http_status = 500, http_headers = json_headers,
      http_body = ConfigError (str ''TELEGRAM_BOT_TOKEN is not configured in Supabase secrets'')
                    (str ''Set it using: supabase secrets set TELEGRAM_BOT_TOKEN=your_bot_token'')\<rparr>
   \<and> serve_handler print_integer Some (str ''POST'') (Some (str ''123:abc'')) (Some []) (Inr example_request)
       (telegram_answers (tg_error 401 ''Unauthorized'')) =
     \<lparr>http_status = 500, http_headers = json_headers,
      http_body = ConfigError (str ''TELEGRAM_CHAT_ID is not configured in Supabase secrets'')
                    (str ''Set it using: supabase secrets set TELEGRAM_CHAT_ID=your_chat_id'')\<rparr>
   \<and> http_body (serve_handler print_integer Some (str ''POST'') (Some (str ''123:abc'')) (Some (str ''-100''))
         (Inr example_request) (telegram_answers (tg_error 401 ''Unauthorized''))) =
       Failure (str ''Invalid TELEGRAM_BOT_TOKEN. Please check your bot token.'')
               (str ''Check the function logs for more details'')
   \<and> http_body (serve_handler print_integer Some (str ''POST'') (Some (str ''123:abc'')) (Some (str ''-100''))
         (Inr example_request) (telegram_answers (tg_error 400 ''Bad Request: chat not found''))) =
       Failure (str ''Invalid TELEGRAM_CHAT_ID. The bot cannot access chat: -100. Make sure to start the bot first by sending /start'')
               (str ''Check the function logs for more details'')
   \<and> http_body (serve_handler print_integer Some (str ''POST'') (Some (str ''123:abc'')) (Some (str ''-100''))
         (Inr example_request) (telegram_answers (tg_error 429 ''Too Many Requests''))) =
       Failure (str ''Telegram API error (429): Too Many Requests'')
               (str ''Check the function logs for more details'')"
proof -
  have m: "str ''POST'' \<noteq> str ''OPTIONS''" by (simp add: str_def)
  have ne: "str ''123:abc'' \<noteq> []" "str ''-100'' \<noteq> []" by (simp_all add: str_def)
  have inc: "string_includes (str ''Bad Request: chat not found'') (str ''chat not found'')"
    by code_simp
  have ninc: "\<not> string_includes (str ''Too Many Requests'') (str ''chat not found'')"
    by code_simp
  have n429: "print_integer 429 = str ''429''"
    by code_simp
  have e429: "error_msg print_integer Some \<lparr>error_code = Some 429, description = Some (str ''Too Many Requests''),
                          message_id = None\<rparr> = str ''Too Many Requests''"
    by (simp add: error_msg_def str_def)
  note a = handler_diagnostics[where num = print_integer and integer_of = Some
      and req_method = "str ''POST''" and token = None
      and chat = "Some (str ''-100'')" and req = "Inr example_request"
      and tg = "telegram_answers (tg_error 401 ''Unauthorized'')"]
  note b = handler_diagnostics[where num = print_integer and integer_of = Some
      and req_method = "str ''POST''" and token = "Some (str ''123:abc'')"
      and t = "str ''123:abc''" and chat = "Some []" and req = "Inr example_request"
      and tg = "telegram_answers (tg_error 401 ''Unauthorized'')"]
  note c = handler_diagnostics[where num = print_integer and integer_of = Some
      and req_method = "str ''POST''" and token = "Some (str ''123:abc'')"
      and t = "str ''123:abc''" and chat = "Some (str ''-100'')" and c = "str ''-100''"
      and req = "Inr example_request" and data = example_request
      and tg = "telegram_answers (tg_error 401 ''Unauthorized'')"
      and result = "\<lparr>error_code = Some 401, description = Some (str ''Unauthorized''), message_id = None\<rparr>"]
  note d = handler_diagnostics[where num = print_integer and integer_of = Some
      and req_method = "str ''POST''" and token = "Some (str ''123:abc'')"
      and t = "str ''123:abc''" and chat = "Some (str ''-100'')" and c = "str ''-100''"
      and req = "Inr example_request" and data = example_request
      and tg = "telegram_answers (tg_error 400 ''Bad Request: chat not found'')"
      and d = "str ''Bad Request: chat not found''"
      and result = "\<lparr>error_code = Some 400, description = Some (str ''Bad Request: chat not found''),
                     message_id = None\<rparr>"]
  note e = handler_diagnostics[where num = print_integer and integer_of = Some
      and req_method = "str ''POST''" and token = "Some (str ''123:abc'')"
      and t = "str ''123:abc''" and chat = "Some (str ''-100'')" and c = "str ''-100''"
      and req = "Inr example_request" and data = example_request
      and tg = "telegram_answers (tg_error 429 ''Too Many Requests'')"
      and result = "\<lparr>error_code = Some 429, description = Some (str ''Too Many Requests''),
                     message_id = None\<rparr>"]
  from a m have A: "serve_handler print_integer Some (str ''POST'') None (Some (str ''-100'')) (Inr example_request)
       (telegram_answers (tg_error 401 ''Unauthorized'')) =
     \<lparr>http_status = 500, http_headers = json_headers,
      http_body = ConfigError (str ''TELEGRAM_BOT_TOKEN is not configured in Supabase secrets'')
                    (str ''Set it using: supabase secrets set TELEGRAM_BOT_TOKEN=your_bot_token'')\<rparr>"
    by simp
  from b m ne have B: "serve_handler print_integer Some (str ''POST'') (Some (str ''123:abc'')) (Some []) (Inr example_request)
       (telegram_answers (tg_error 401 ''Unauthorized'')) =
     \<lparr>http_status = 500, http_headers = json_headers,
      http_body = ConfigError (str ''TELEGRAM_CHAT_ID is not configured in Supabase secrets'')
                    (str ''Set it using: supabase secrets set TELEGRAM_CHAT_ID=your_chat_id'')\<rparr>"
    by simp
  from c m ne have C: "http_body (serve_handler print_integer Some (str ''POST'') (Some (str ''123:abc'')) (Some (str ''-100''))
         (Inr example_request) (telegram_answers (tg_error 401 ''Unauthorized''))) =
       Failure (str ''Invalid TELEGRAM_BOT_TOKEN. Please check your bot token.'')
               (str ''Check the function logs for more details'')"
    by (simp add: telegram_answers_def tg_error_def code_is_def)
  from d m ne inc have D: "http_body (serve_handler print_integer Some (str ''POST'') (Some (str ''123:abc'')) (Some (str ''-100''))
         (Inr example_request) (telegram_answers (tg_error 400 ''Bad Request: chat not found''))) =
       Failure (str ''Invalid TELEGRAM_CHAT_ID. The bot cannot access chat: '' @ str ''-100''
                       @ str ''. Make sure to start the bot first by sending /start'')
               (str ''Check the function logs for more details'')"
    by (simp add: telegram_answers_def tg_error_def code_is_def)
  from e m ne ninc have E: "http_body (serve_handler print_integer Some (str ''POST'') (Some (str ''123:abc'')) (Some (str ''-100''))
         (Inr example_request) (telegram_answers (tg_error 429 ''Too Many Requests''))) =
       Failure (str ''Telegram API error ('' @ str ''429'' @ str ''): '' @ str ''Too Many Requests'')
               (str ''Check the function logs for more details'')"
    by (simp add: telegram_answers_def tg_error_def code_is_def n429 e429)
  have j: "str ''Invalid TELEGRAM_CHAT_ID. The bot cannot access chat: '' @ str ''-100''
             @ str ''. Make sure to start the bot first by sending /start''
           = str ''Invalid TELEGRAM_CHAT_ID. The bot cannot access chat: -100. Make sure to start the bot first by sending /start''"
    "str ''Telegram API error ('' @ str ''429'' @ str ''): '' @ str ''Too Many Requests''
       = str ''Telegram API error (429): Too Many Requests''"
    by (simp_all add: str_def)
  from A B C D E show ?thesis unfolding j by blast
qed

end
